theory Spec2Isabelle
  imports Complex_Main "HOL-Library.Sublist"
begin

section \<open>The create-square-invoice edge function\<close>

text \<open>
  A shallow embedding of \<^verbatim>\<open>supabase/functions/create-square-invoice/index.ts\<close> and of
  the SQL helper functions of its migration. The request handler is a function of
  \<^item> the request,
  \<^item> the \<open>world\<close>: the answers of everything the handler calls and does not own
    (configuration, clock, identity provider, invoicing platform, the outcome of its own
    storage writes),
  \<^item> the \<open>database\<close>: the two tables it reads.
  It returns the response (or the exception that escapes the handler) together with the
  ordered list of effects it issued: audit inserts, ledger inserts and updates, requests
  to the invoicing platform, console errors.

  Strings are lists of 8-bit characters; JavaScript numbers that reach the handler are
  modelled by their exact rational value; \<open>Date\<close> values are integer milliseconds.

  The reads of the storage (the ledger lookup and the two counts) are answered from the
  tables. The answers of the two inserts whose failure the handler handles (the ledger
  insert and the audit insert) are the world's. The handler does not read the result of
  its updates.
\<close>

subsection \<open>Types\<close>

datatype ErrorCode =
    AUTH_MISSING
  | AUTH_INVALID
  | AUTH_EXPIRED
  | UNAUTHORIZED
  | VALIDATION_MISSING_FIELD
  | VALIDATION_INVALID_EMAIL
  | VALIDATION_INVALID_AMOUNT
  | VALIDATION_INVALID_ORDER
  | DUPLICATE_ORDER
  | RATE_LIMITED_USER
  | RATE_LIMITED_GLOBAL
  | REPLAY_REJECTED
  | SQUARE_API_ERROR
  | SQUARE_CUSTOMER_ERROR
  | SQUARE_ORDER_ERROR
  | SQUARE_INVOICE_ERROR
  | SQUARE_PUBLISH_ERROR
  | INTERNAL_ERROR

text \<open>
  \<open>CreateInvoiceRequest\<close>. The handler tests every field for presence, so each field
  is optional here: \<open>None\<close> is a field that is \<open>undefined\<close> after destructuring.
\<close>

record CreateInvoiceRequest =
  order_number :: "string option"
  customer_name :: "string option"
  customer_email :: "string option"
  amount_cents :: "rat option"
  request_timestamp :: "string option"

record SquareCustomer =
  customer_id :: string

record SquareError =
  category :: string
  code :: string
  detail :: string

text \<open>The user object of the identity provider: \<open>user.id\<close> and \<open>user.email\<close>.\<close>

record user =
  user_id :: string
  user_email :: "string option"

text \<open>
  The request: its method, its \<open>Authorization\<close> header and the value of
  \<open>req.json()\<close>, read at the declared type \<open>CreateInvoiceRequest\<close> (\<open>None\<close>
  when parsing the body throws).
\<close>

record request =
  req_method :: string
  req_authorization :: "string option"
  req_json :: "CreateInvoiceRequest option"

text \<open>The body and the \<open>X-Correlation-ID\<close> header of a response.\<close>

datatype response_body =
    NoContent
  | ErrorBody string ErrorCode string "nat option"
  | SuccessBody string "string option" "string option" "string option" "string option"

record response =
  status :: nat
  body :: response_body
  x_correlation_id :: "string option"

text \<open>The argument of \<open>logAudit\<close>, with the correlation id it adds.\<close>

record audit_entry =
  ae_correlation_id :: string
  ae_user_id :: "string option"
  ae_user_email :: "string option"
  ae_cultivera_order_number :: "string option"
  ae_customer_name :: "string option"
  ae_customer_email :: "string option"
  ae_amount_cents :: "rat option"
  ae_idempotency_key :: "string option"
  ae_square_customer_id :: "string option"
  ae_square_order_id :: "string option"
  ae_square_invoice_id :: "string option"
  ae_result :: string
  ae_error_code :: "ErrorCode option"
  ae_error_message :: "string option"
  ae_request_timestamp :: "string option"
  ae_steps_completed :: "string list option"

text \<open>A row of \<open>invoice_audit_log\<close>: the entry and the \<open>timestamp\<close> column.\<close>

record audit_row =
  ar_timestamp :: int
  ar_entry :: audit_entry

datatype order_status = Pending | Processing | Completed | Failed

text \<open>A row of \<open>processed_orders\<close>.\<close>

record processed_order =
  po_id :: string
  po_order_number :: string
  po_user_id :: string
  po_status :: order_status
  po_square_customer_id :: "string option"
  po_square_order_id :: "string option"
  po_square_invoice_id :: "string option"
  po_steps_completed :: "string list"
  po_amount_cents :: rat
  po_customer_name :: string
  po_customer_email :: string
  po_idempotency_key :: string
  po_error_message :: "string option"
  po_updated_at :: "string option"
  po_completed_at :: "string option"

text \<open>
  The object passed to \<open>.update(...)\<close> on \<open>processed_orders\<close>: \<open>None\<close> is a
  column the object does not carry (absent, or \<open>undefined\<close> and so dropped on
  serialisation).
\<close>

record order_patch =
  set_status :: "order_status option"
  set_updated_at :: "string option"
  set_square_customer_id :: "string option"
  set_square_order_id :: "string option"
  set_square_invoice_id :: "string option"
  set_steps_completed :: "string list option"
  set_error_message :: "string option"
  set_completed_at :: "string option"

text \<open>The object passed to \<open>.insert(...)\<close> on \<open>processed_orders\<close>.\<close>

record order_insert =
  ins_order_number :: string
  ins_user_id :: string
  ins_status :: order_status
  ins_amount_cents :: rat
  ins_customer_name :: string
  ins_customer_email :: string
  ins_idempotency_key :: string

text \<open>The JSON bodies the handler sends to the invoicing platform.\<close>

datatype square_body =
    NoBody
  | SearchCustomers string
  | CreateCustomer string string string string
  | CreateOrder string string string string string rat
  | CreateInvoice string string string string string string
  | PublishInvoice string int

text \<open>One \<open>fetch\<close> of \<open>squareRequest\<close>.\<close>

record square_call =
  sq_endpoint :: string
  sq_method :: string
  sq_body :: square_body
  sq_access_token :: string
  sq_idempotency_key :: "string option"

datatype event =
    AuditInsert audit_entry
  | LedgerInsert order_insert
  | LedgerUpdate string order_patch
  | SquareRequest square_call
  | ConsoleError string

text \<open>
  What a call of the platform client gives back: the call throws (\<open>fetch\<close> or
  \<open>response.json()\<close> rejects, or the body lacks the property that is read), the body
  carries \<open>errors\<close>, or the body carries the value that is read.
\<close>

datatype 'a square_response =
    Rejects string
  | Errors "SquareError list"
  | Returns 'a

text \<open>
  The answer to the insert into \<open>processed_orders\<close>: the new row's id, or an error
  with its code and message.
\<close>

datatype insert_result = Inserted string | InsertError string string

record world =
  SUPABASE_URL :: "string option"
  SUPABASE_SERVICE_ROLE_KEY :: "string option"
  SQUARE_ACCESS_TOKEN :: "string option"
  SQUARE_LOCATION_ID :: "string option"
  randomUUID :: string
  date_now :: int
  date_parse :: "string \<Rightarrow> int option"
  toISOString :: string
  due_date :: string
  toFixed1 :: "rat \<Rightarrow> string"
  sql_now :: int
  auth_getUser :: "string \<Rightarrow> user option \<times> string option"
  rpc_is_authorized_invoicer :: "string \<Rightarrow> bool"
  audit_insert_throws :: bool
  order_insert_result :: insert_result
  customers_search :: "SquareCustomer list square_response"
  customers_create :: "SquareCustomer square_response"
  orders_create :: "string square_response"
  invoices_create :: "(string \<times> string) square_response"
  invoices_get :: "int square_response"
  invoices_publish :: "unit square_response"

record database =
  processed_orders :: "processed_order list"
  invoice_audit_log :: "audit_row list"

text \<open>
  The result of the handler: \<open>Inl m\<close> is an exception with message \<open>m\<close> that leaves
  the handler, \<open>Inr r\<close> the response it returns; with the effects issued, in order.
\<close>

type_synonym outcome = "(string + response) \<times> event list"

subsection \<open>Constants\<close>

definition REPLAY_WINDOW_SECONDS :: rat where
  "REPLAY_WINDOW_SECONDS = 120"

definition MAX_AMOUNT_CENTS :: rat where
  "MAX_AMOUNT_CENTS = 5000000"

definition USER_RATE_LIMIT :: int where
  "USER_RATE_LIMIT = 10"

definition GLOBAL_RATE_LIMIT :: int where
  "GLOBAL_RATE_LIMIT = 50"

subsection \<open>Helper functions\<close>

text \<open>JavaScript truthiness of an optional string: \<open>undefined\<close> and \<open>''\<close> are falsy.\<close>

definition truthy :: "string option \<Rightarrow> bool" where
  "truthy s = (case s of None \<Rightarrow> False | Some v \<Rightarrow> v \<noteq> [])"

definition jsonResponse :: "response_body \<Rightarrow> nat \<Rightarrow> string \<Rightarrow> response" where
  "jsonResponse data st correlationId =
     \<lparr>status = st, body = data,
      x_correlation_id = (if correlationId \<noteq> [] then Some correlationId else None)\<rparr>"

definition errorResponse :: "ErrorCode \<Rightarrow> string \<Rightarrow> nat \<Rightarrow> string \<Rightarrow> nat option \<Rightarrow> response" where
  "errorResponse c msg st correlationId retryAfter =
     jsonResponse
       (ErrorBody correlationId c msg
          (case retryAfter of None \<Rightarrow> None | Some n \<Rightarrow> if n \<noteq> 0 then Some n else None))
       st correlationId"

text \<open>The class \<open>\s\<close> on 8-bit characters: tab, LF, VT, FF, CR, space, no-break space.\<close>

definition is_space :: "char \<Rightarrow> bool" where
  "is_space c = (of_char c \<in> {9, 10, 11, 12, 13, 32, 160 :: nat})"

definition is_alnum_dash :: "char \<Rightarrow> bool" where
  "is_alnum_dash c =
     (let n = (of_char c :: nat)
      in (65 \<le> n \<and> n \<le> 90) \<or> (97 \<le> n \<and> n \<le> 122) \<or> (48 \<le> n \<and> n \<le> 57) \<or> n = 45)"

text \<open>
  Regular expressions over characters, with matching by derivatives; a pattern
  \<open>/^r$/\<close> (no flags) matches a string when the whole string is in the language of \<open>r\<close>.
\<close>

datatype regex =
    Class "char \<Rightarrow> bool"
  | Then regex regex
  | OneOrMore regex
  | Empty
  | Never

fun nullable :: "regex \<Rightarrow> bool" where
  "nullable (Class p) = False"
| "nullable (Then r s) = (nullable r \<and> nullable s)"
| "nullable (OneOrMore r) = nullable r"
| "nullable Empty = True"
| "nullable Never = False"

text \<open>
  \<open>deriv r c\<close>: the list of alternatives left to match after \<open>r\<close> has read \<open>c\<close>.
\<close>

fun deriv :: "regex \<Rightarrow> char \<Rightarrow> regex list" where
  "deriv (Class p) c = (if p c then [Empty] else [])"
| "deriv (Then r s) c =
     map (\<lambda>r'. Then r' s) (deriv r c) @ (if nullable r then deriv s c else [])"
| "deriv (OneOrMore r) c =
     concat (map (\<lambda>r'. [r', Then r' (OneOrMore r)]) (deriv r c))"
| "deriv Empty c = []"
| "deriv Never c = []"

fun matches :: "regex list \<Rightarrow> string \<Rightarrow> bool" where
  "matches rs [] = list_ex nullable rs"
| "matches rs (c # cs) = matches (concat (map (\<lambda>r. deriv r c) rs)) cs"

definition regex_test :: "regex \<Rightarrow> string \<Rightarrow> bool" where
  "regex_test r s = matches [r] s"

definition emailRegex :: regex where
  "emailRegex =
     (let part = OneOrMore (Class (\<lambda>c. \<not> is_space c \<and> c \<noteq> CHR ''@''))
      in Then part (Then (Class (\<lambda>c. c = CHR ''@''))
           (Then part (Then (Class (\<lambda>c. c = CHR ''.'')) part))))"

definition isValidEmail :: "string \<Rightarrow> bool" where
  "isValidEmail email = regex_test emailRegex email"

definition orderRegex :: regex where
  "orderRegex = OneOrMore (Class is_alnum_dash)"

definition isValidOrderNumber :: "string \<Rightarrow> bool" where
  "isValidOrderNumber orderNumber =
     (regex_test orderRegex orderNumber \<and> length orderNumber > 0 \<and> length orderNumber \<le> 50)"

text \<open>\<open>Number.isInteger\<close> on a finite number.\<close>

definition Number_isInteger :: "rat \<Rightarrow> bool" where
  "Number_isInteger x = (of_int \<lfloor>x\<rfloor> = x)"

text \<open>\<open>s.startsWith(p)\<close> and \<open>s.includes(p)\<close>.\<close>

fun startsWith :: "string \<Rightarrow> string \<Rightarrow> bool" where
  "startsWith s [] = True"
| "startsWith [] (p # ps) = False"
| "startsWith (c # cs) (p # ps) = (c = p \<and> startsWith cs ps)"

fun includes_str :: "string \<Rightarrow> string \<Rightarrow> bool" where
  "includes_str [] p = (p = [])"
| "includes_str (c # cs) p = (startsWith (c # cs) p \<or> includes_str cs p)"

text \<open>The decimal numeral of a non-negative count, as template literals print it.\<close>

function string_of_nat :: "nat \<Rightarrow> string" where
  "string_of_nat n =
     (if n < 10 then [char_of (48 + n)]
      else string_of_nat (n div 10) @ [char_of (48 + n mod 10)])"
  by pat_completeness auto
termination
  by (relation "measure id") auto

definition string_of_int :: "int \<Rightarrow> string" where
  "string_of_int i = (if i < 0 then CHR ''-'' # string_of_nat (nat (- i)) else string_of_nat (nat i))"

text \<open>\<open>name.trim().split(/\s+/)\<close>, and \<open>parts.join(sep)\<close>.\<close>

fun words :: "string \<Rightarrow> string \<Rightarrow> string list" where
  "words cur [] = (if cur = [] then [] else [rev cur])"
| "words cur (c # cs) =
     (if is_space c then (if cur = [] then words [] cs else rev cur # words [] cs)
      else words (c # cur) cs)"

definition trim_split :: "string \<Rightarrow> string list" where
  "trim_split name = (case words [] name of [] \<Rightarrow> [[]] | w # ws \<Rightarrow> w # ws)"

fun join :: "string \<Rightarrow> string list \<Rightarrow> string" where
  "join sep [] = []"
| "join sep [w] = w"
| "join sep (w # v # ws) = w @ sep @ join sep (v # ws)"

subsection \<open>Square API functions\<close>

text \<open>
  \<open>squareRequest\<close> issues one request; the \<open>Idempotency-Key\<close> header is set when
  the key is given and not empty. Its answer is the world's.
\<close>

definition squareRequest :: "string \<Rightarrow> string \<Rightarrow> square_body \<Rightarrow> string \<Rightarrow> string option \<Rightarrow> event" where
  "squareRequest endpoint method b accessToken idempotencyKey =
     SquareRequest \<lparr>sq_endpoint = endpoint, sq_method = method, sq_body = b,
       sq_access_token = accessToken,
       sq_idempotency_key = (if truthy idempotencyKey then idempotencyKey else None)\<rparr>"

text \<open>\<open>result.errors[0]?.detail\<close> inside a template literal.\<close>

definition first_detail :: "SquareError list \<Rightarrow> string" where
  "first_detail errs = (case errs of [] \<Rightarrow> ''undefined'' | e # _ \<Rightarrow> detail e)"

definition searchCustomerByEmail ::
  "world \<Rightarrow> string \<Rightarrow> string \<Rightarrow> (string + SquareCustomer option) \<times> event list" where
  "searchCustomerByEmail w email accessToken =
     (case customers_search w of
        Rejects m \<Rightarrow> Inl m
      | Errors errs \<Rightarrow> Inl (''Customer search failed: '' @ first_detail errs)
      | Returns customers \<Rightarrow> Inr (case customers of [] \<Rightarrow> None | c # _ \<Rightarrow> Some c),
      [squareRequest ''/customers/search'' ''POST'' (SearchCustomers email) accessToken None])"

definition createCustomer ::
  "world \<Rightarrow> string \<Rightarrow> string \<Rightarrow> string \<Rightarrow> string \<Rightarrow> (string + SquareCustomer) \<times> event list" where
  "createCustomer w name email orderNumber accessToken =
     (let nameParts = trim_split name;
          givenName = (case nameParts of [] \<Rightarrow> [] | g # _ \<Rightarrow> g);
          familyName = join '' '' (tl nameParts)
      in (case customers_create w of
            Rejects m \<Rightarrow> Inl m
          | Errors errs \<Rightarrow> Inl (''Customer creation failed: '' @ first_detail errs)
          | Returns customer \<Rightarrow> Inr customer,
          [squareRequest ''/customers'' ''POST''
             (CreateCustomer (''cust-'' @ orderNumber) givenName familyName email)
             accessToken (Some (''cust-'' @ orderNumber))]))"

definition createOrder ::
  "world \<Rightarrow> string \<Rightarrow> rat \<Rightarrow> string \<Rightarrow> string \<Rightarrow> string \<Rightarrow> (string + string) \<times> event list" where
  "createOrder w customerId amountCents orderNumber locationId accessToken =
     (case orders_create w of
        Rejects m \<Rightarrow> Inl m
      | Errors errs \<Rightarrow> Inl (''Order creation failed: '' @ first_detail errs)
      | Returns order_id \<Rightarrow> Inr order_id,
      [squareRequest ''/orders'' ''POST''
         (CreateOrder (''ord-'' @ orderNumber) locationId customerId orderNumber
            (''Wholesale Order #'' @ orderNumber) amountCents)
         accessToken (Some (''ord-'' @ orderNumber))])"

definition createInvoice ::
  "world \<Rightarrow> string \<Rightarrow> string \<Rightarrow> string \<Rightarrow> string \<Rightarrow> string \<Rightarrow> (string + string \<times> string) \<times> event list" where
  "createInvoice w orderId customerId orderNumber locationId accessToken =
     (let dueDate = due_date w
      in (case invoices_create w of
            Rejects m \<Rightarrow> Inl m
          | Errors errs \<Rightarrow> Inl (''Invoice creation failed: '' @ first_detail errs)
          | Returns invoice \<Rightarrow> Inr invoice,
          [squareRequest ''/invoices'' ''POST''
             (CreateInvoice (''inv-'' @ orderNumber) orderId locationId customerId dueDate
                (''Invoice for Order #'' @ orderNumber))
             accessToken (Some (''inv-'' @ orderNumber))]))"

definition publishInvoice ::
  "world \<Rightarrow> string \<Rightarrow> string \<Rightarrow> string \<Rightarrow> (string + unit) \<times> event list" where
  "publishInvoice w invoiceId orderNumber accessToken =
     (let getCall = squareRequest (''/invoices/'' @ invoiceId) ''GET'' NoBody accessToken None
      in case invoices_get w of
           Rejects m \<Rightarrow> (Inl m, [getCall])
         | Errors errs \<Rightarrow> (Inl (''Failed to get invoice: '' @ first_detail errs), [getCall])
         | Returns version \<Rightarrow>
             (case invoices_publish w of
                Rejects m \<Rightarrow> Inl m
              | Errors errs \<Rightarrow> Inl (''Invoice publish failed: '' @ first_detail errs)
              | Returns u \<Rightarrow> Inr (),
              [getCall,
               squareRequest (''/invoices/'' @ invoiceId @ ''/publish'') ''POST''
                 (PublishInvoice (''pub-'' @ orderNumber) version)
                 accessToken (Some (''pub-'' @ orderNumber))]))"

subsection \<open>Audit logging\<close>

text \<open>
  \<open>logAudit\<close> issues the insert; when the insert throws, the exception is caught and
  reported on the console, and \<open>logAudit\<close> returns normally either way.
\<close>

definition logAudit :: "world \<Rightarrow> string \<Rightarrow> audit_entry \<Rightarrow> event list" where
  "logAudit w correlationId data =
     AuditInsert (data\<lparr>ae_correlation_id := correlationId\<rparr>) #
     (if audit_insert_throws w then [ConsoleError ''Failed to write audit log:''] else [])"

text \<open>An audit object that carries only \<open>result\<close>.\<close>

definition audit_data :: "string \<Rightarrow> audit_entry" where
  "audit_data r =
     \<lparr>ae_correlation_id = [], ae_user_id = None, ae_user_email = None,
      ae_cultivera_order_number = None, ae_customer_name = None, ae_customer_email = None,
      ae_amount_cents = None, ae_idempotency_key = None, ae_square_customer_id = None,
      ae_square_order_id = None, ae_square_invoice_id = None, ae_result = r,
      ae_error_code = None, ae_error_message = None, ae_request_timestamp = None,
      ae_steps_completed = None\<rparr>"

text \<open>An audit object with the caller, \<open>result\<close>, \<open>error_code\<close> and \<open>error_message\<close>.\<close>

definition audit_failure :: "user \<Rightarrow> string \<Rightarrow> ErrorCode \<Rightarrow> string \<Rightarrow> audit_entry" where
  "audit_failure u r c msg =
     (audit_data r)\<lparr>ae_user_id := Some (user_id u), ae_user_email := user_email u,
       ae_error_code := Some c, ae_error_message := Some msg\<rparr>"

subsection \<open>SQL helper functions\<close>

definition counted :: "audit_row \<Rightarrow> int \<Rightarrow> bool" where
  "counted r now =
     (ar_timestamp r > now - 3600000 \<and>
      (ae_result (ar_entry r) = ''SUCCESS'' \<or> ae_result (ar_entry r) = ''FAILURE''))"

definition get_user_rate_limit_count :: "database \<Rightarrow> int \<Rightarrow> string \<Rightarrow> int" where
  "get_user_rate_limit_count db now check_user_id =
     int (length (filter (\<lambda>r. ae_user_id (ar_entry r) = Some check_user_id \<and> counted r now)
                    (invoice_audit_log db)))"

definition get_global_rate_limit_count :: "database \<Rightarrow> int \<Rightarrow> int" where
  "get_global_rate_limit_count db now =
     int (length (filter (\<lambda>r. counted r now) (invoice_audit_log db)))"

text \<open>
  \<open>.from('processed_orders').select('*').eq('order_number', n).single()\<close>: the row when
  exactly one row matches, \<open>null\<close> otherwise.
\<close>

definition select_order :: "database \<Rightarrow> string \<Rightarrow> processed_order option" where
  "select_order db n =
     (case filter (\<lambda>r. po_order_number r = n) (processed_orders db) of
        [r] \<Rightarrow> Some r
      | _ \<Rightarrow> None)"

subsection \<open>The saga (section 9 of the handler)\<close>

text \<open>The variables the \<open>try\<close> block assigns and the \<open>catch\<close> block reads.\<close>

record saga_vars =
  stepsCompleted :: "string list"
  squareCustomerId :: "string option"
  squareOrderId :: "string option"
  squareInvoiceId :: "string option"
  invoiceNumber :: "string option"

text \<open>
  A run of part of the \<open>try\<close> block: the message of the exception thrown, if any, the
  variables at that point and the effects issued.
\<close>

type_synonym saga_run = "string option \<times> saga_vars \<times> event list"

definition and_then :: "saga_run \<Rightarrow> (saga_vars \<Rightarrow> saga_run) \<Rightarrow> saga_run" where
  "and_then r f =
     (case r of
        (Some e, v, t) \<Rightarrow> (Some e, v, t)
      | (None, v, t) \<Rightarrow> (case f v of (x, v', t') \<Rightarrow> (x, v', t @ t')))"

definition push :: "string \<Rightarrow> saga_vars \<Rightarrow> saga_vars" where
  "push step v = v\<lparr>stepsCompleted := stepsCompleted v @ [step]\<rparr>"

definition no_patch :: order_patch where
  "no_patch =
     \<lparr>set_status = None, set_updated_at = None, set_square_customer_id = None,
      set_square_order_id = None, set_square_invoice_id = None, set_steps_completed = None,
      set_error_message = None, set_completed_at = None\<rparr>"

text \<open>Steps 1 and 2: search for the customer, create it if not found, record progress.\<close>

definition step_customer ::
  "world \<Rightarrow> string \<Rightarrow> string \<Rightarrow> string \<Rightarrow> string \<Rightarrow> string \<Rightarrow> saga_vars \<Rightarrow> saga_run" where
  "step_customer w order_no name email accessToken processedOrderId v =
     (case searchCustomerByEmail w email accessToken of
        (Inl e, t1) \<Rightarrow> (Some e, v, t1)
      | (Inr existingCustomer, t1) \<Rightarrow>
          (let v1 = push ''customer_search'' v
           in case (case existingCustomer of
                      Some c \<Rightarrow>
                        (None, push ''customer_found'' (v1\<lparr>squareCustomerId := Some (customer_id c)\<rparr>), [])
                    | None \<Rightarrow>
                        (case createCustomer w name email order_no accessToken of
                           (Inl e, t2) \<Rightarrow> (Some e, v1, t2)
                         | (Inr newCustomer, t2) \<Rightarrow>
                             (None,
                              push ''customer_created''
                                (v1\<lparr>squareCustomerId := Some (customer_id newCustomer)\<rparr>),
                              t2))) of
                (Some e, v2, t2) \<Rightarrow> (Some e, v2, t1 @ t2)
              | (None, v2, t2) \<Rightarrow>
                  (None, v2,
                   t1 @ t2 @
                   [LedgerUpdate processedOrderId
                      (no_patch\<lparr>set_square_customer_id := squareCustomerId v2,
                         set_steps_completed := Some (stepsCompleted v2)\<rparr>)])))"

text \<open>Step 3: create the order.\<close>

definition step_order ::
  "world \<Rightarrow> string \<Rightarrow> rat \<Rightarrow> string \<Rightarrow> string \<Rightarrow> string \<Rightarrow> saga_vars \<Rightarrow> saga_run" where
  "step_order w order_no amount locationId accessToken processedOrderId v =
     (case createOrder w (case squareCustomerId v of Some c \<Rightarrow> c | None \<Rightarrow> [])
             amount order_no locationId accessToken of
        (Inl e, t) \<Rightarrow> (Some e, v, t)
      | (Inr order_id, t) \<Rightarrow>
          (let v' = push ''order_created'' (v\<lparr>squareOrderId := Some order_id\<rparr>)
           in (None, v',
               t @ [LedgerUpdate processedOrderId
                      (no_patch\<lparr>set_square_order_id := squareOrderId v',
                         set_steps_completed := Some (stepsCompleted v')\<rparr>)])))"

text \<open>Step 4: create the invoice.\<close>

definition step_invoice ::
  "world \<Rightarrow> string \<Rightarrow> string \<Rightarrow> string \<Rightarrow> string \<Rightarrow> saga_vars \<Rightarrow> saga_run" where
  "step_invoice w order_no locationId accessToken processedOrderId v =
     (case createInvoice w (case squareOrderId v of Some c \<Rightarrow> c | None \<Rightarrow> [])
             (case squareCustomerId v of Some c \<Rightarrow> c | None \<Rightarrow> [])
             order_no locationId accessToken of
        (Inl e, t) \<Rightarrow> (Some e, v, t)
      | (Inr (invoiceId, invoiceNo), t) \<Rightarrow>
          (let v' = push ''invoice_created''
                      (v\<lparr>squareInvoiceId := Some invoiceId, invoiceNumber := Some invoiceNo\<rparr>)
           in (None, v',
               t @ [LedgerUpdate processedOrderId
                      (no_patch\<lparr>set_square_invoice_id := squareInvoiceId v',
                         set_steps_completed := Some (stepsCompleted v')\<rparr>)])))"

text \<open>Step 5: publish the invoice and mark the record as completed.\<close>

definition step_publish ::
  "world \<Rightarrow> string \<Rightarrow> string \<Rightarrow> string \<Rightarrow> saga_vars \<Rightarrow> saga_run" where
  "step_publish w order_no accessToken processedOrderId v =
     (case publishInvoice w (case squareInvoiceId v of Some c \<Rightarrow> c | None \<Rightarrow> [])
             order_no accessToken of
        (Inl e, t) \<Rightarrow> (Some e, v, t)
      | (Inr u, t) \<Rightarrow>
          (let v' = push ''invoice_published'' v
           in (None, v',
               t @ [LedgerUpdate processedOrderId
                      (no_patch\<lparr>set_status := Some Completed,
                         set_steps_completed := Some (stepsCompleted v'),
                         set_completed_at := Some (toISOString w)\<rparr>)])))"

text \<open>The \<open>try\<close> block up to its audit entry, from the fresh variables of section 8.\<close>

definition initial_vars :: saga_vars where
  "initial_vars =
     \<lparr>stepsCompleted = [], squareCustomerId = None, squareOrderId = None,
      squareInvoiceId = None, invoiceNumber = None\<rparr>"

definition try_block ::
  "world \<Rightarrow> string \<Rightarrow> string \<Rightarrow> string \<Rightarrow> rat \<Rightarrow> string \<Rightarrow> string \<Rightarrow> string \<Rightarrow> saga_run" where
  "try_block w order_no name email amount locationId accessToken processedOrderId =
     and_then
       (and_then
          (and_then
             (step_customer w order_no name email accessToken processedOrderId initial_vars)
             (step_order w order_no amount locationId accessToken processedOrderId))
          (step_invoice w order_no locationId accessToken processedOrderId))
       (step_publish w order_no accessToken processedOrderId)"

text \<open>The \<open>catch\<close> block's choice of the error code.\<close>

definition classify :: "string list \<Rightarrow> ErrorCode" where
  "classify steps =
     (if length steps = 0 then SQUARE_CUSTOMER_ERROR
      else if ''order_created'' \<notin> set steps then SQUARE_ORDER_ERROR
      else if ''invoice_created'' \<notin> set steps then SQUARE_INVOICE_ERROR
      else if ''invoice_published'' \<notin> set steps then SQUARE_PUBLISH_ERROR
      else SQUARE_API_ERROR)"

text \<open>The audit object of the two outcomes of the saga.\<close>

definition audit_saga ::
  "user \<Rightarrow> string \<Rightarrow> string \<Rightarrow> string \<Rightarrow> rat \<Rightarrow> string \<Rightarrow> saga_vars \<Rightarrow> string \<Rightarrow> audit_entry" where
  "audit_saga u order_no name email amount ts v r =
     (audit_data r)\<lparr>ae_user_id := Some (user_id u), ae_user_email := user_email u,
       ae_cultivera_order_number := Some order_no, ae_customer_name := Some name,
       ae_customer_email := Some email, ae_amount_cents := Some amount,
       ae_idempotency_key := Some (''cultivera-'' @ order_no),
       ae_square_customer_id := squareCustomerId v, ae_square_order_id := squareOrderId v,
       ae_square_invoice_id := squareInvoiceId v, ae_request_timestamp := Some ts,
       ae_steps_completed := Some (stepsCompleted v)\<rparr>"

definition orchestration ::
  "world \<Rightarrow> string \<Rightarrow> string \<Rightarrow> string \<Rightarrow> user \<Rightarrow>
   string \<Rightarrow> string \<Rightarrow> string \<Rightarrow> rat \<Rightarrow> string \<Rightarrow> string \<Rightarrow> outcome" where
  "orchestration w correlationId accessToken locationId u order_no name email amount ts
     processedOrderId =
     (case try_block w order_no name email amount locationId accessToken processedOrderId of
        (None, v, t) \<Rightarrow>
          (Inr (jsonResponse
                  (SuccessBody correlationId (squareCustomerId v) (squareOrderId v)
                     (squareInvoiceId v) (invoiceNumber v))
                  200 correlationId),
           t @ logAudit w correlationId (audit_saga u order_no name email amount ts v ''SUCCESS''))
      | (Some errorMessage, v, t) \<Rightarrow>
          (let errorCode = classify (stepsCompleted v)
           in (Inr (errorResponse errorCode
                      (''Invoice creation did not complete. Click 'Try Again' to retry safely. Error: ''
                       @ errorMessage)
                      500 correlationId None),
               t @
               [LedgerUpdate processedOrderId
                  (no_patch\<lparr>set_status := Some Failed,
                     set_steps_completed := Some (stepsCompleted v),
                     set_error_message := Some errorMessage,
                     set_square_customer_id := squareCustomerId v,
                     set_square_order_id := squareOrderId v,
                     set_square_invoice_id := squareInvoiceId v\<rparr>)] @
               logAudit w correlationId
                 ((audit_saga u order_no name email amount ts v ''FAILURE'')
                    \<lparr>ae_error_code := Some errorCode, ae_error_message := Some errorMessage\<rparr>))))"

subsection \<open>The handler, section by section\<close>

text \<open>
  Each section of the handler either returns (a response and the effects so far) or
  falls through to the next section; the sections are defined last to first.
\<close>

text \<open>Section 8: create or update the processed order record.\<close>

definition upsert_record ::
  "world \<Rightarrow> string \<Rightarrow> string \<Rightarrow> string \<Rightarrow> user \<Rightarrow>
   string \<Rightarrow> string \<Rightarrow> string \<Rightarrow> rat \<Rightarrow> string \<Rightarrow> processed_order option \<Rightarrow> outcome" where
  "upsert_record w correlationId accessToken locationId u order_no name email amount ts
     existingOrder =
     (let idempotencyKey = ''cultivera-'' @ order_no
      in case existingOrder of
           Some existing \<Rightarrow>
             (case orchestration w correlationId accessToken locationId u order_no name email
                     amount ts (po_id existing) of
                (r, t) \<Rightarrow>
                  (r, LedgerUpdate (po_id existing)
                        (no_patch\<lparr>set_status := Some Processing,
                           set_updated_at := Some (toISOString w)\<rparr>) # t))
         | None \<Rightarrow>
             (let ins = LedgerInsert
                          \<lparr>ins_order_number = order_no, ins_user_id = user_id u,
                           ins_status = Processing, ins_amount_cents = amount,
                           ins_customer_name = name, ins_customer_email = email,
                           ins_idempotency_key = idempotencyKey\<rparr>
              in case order_insert_result w of
                   InsertError pgcode msg \<Rightarrow>
                     (if pgcode = ''23505'' then
                        (Inr (errorResponse DUPLICATE_ORDER
                                ''This order is already being processed. Please wait a moment.''
                                409 correlationId None),
                         ins # logAudit w correlationId
                                 ((audit_failure u ''DUPLICATE_BLOCKED'' DUPLICATE_ORDER
                                     ''Order being processed by another request'')
                                    \<lparr>ae_cultivera_order_number := Some order_no\<rparr>))
                      else (Inl msg, [ins]))
                 | Inserted newId \<Rightarrow>
                     (case orchestration w correlationId accessToken locationId u order_no name
                             email amount ts newId of
                        (r, t) \<Rightarrow> (r, ins # t))))"

text \<open>Section 7: duplicate check.\<close>

definition duplicate_check ::
  "world \<Rightarrow> database \<Rightarrow> string \<Rightarrow> string \<Rightarrow> string \<Rightarrow> user \<Rightarrow>
   string \<Rightarrow> string \<Rightarrow> string \<Rightarrow> rat \<Rightarrow> string \<Rightarrow> outcome" where
  "duplicate_check w db correlationId accessToken locationId u order_no name email amount ts =
     (let existingOrder = select_order db order_no
      in case existingOrder of
           None \<Rightarrow>
             upsert_record w correlationId accessToken locationId u order_no name email amount
               ts existingOrder
         | Some existing \<Rightarrow>
             if po_status existing = Completed then
               (Inr (errorResponse DUPLICATE_ORDER
                       (''Invoice already sent for order #'' @ order_no
                        @ ''. View in Square Dashboard.'')
                       409 correlationId None),
                logAudit w correlationId
                  ((audit_failure u ''DUPLICATE_BLOCKED'' DUPLICATE_ORDER
                      (''Order already processed on ''
                       @ (case po_completed_at existing of None \<Rightarrow> ''null'' | Some d \<Rightarrow> d)))
                     \<lparr>ae_cultivera_order_number := Some order_no,
                       ae_square_invoice_id := po_square_invoice_id existing\<rparr>))
             else
               upsert_record w correlationId accessToken locationId u order_no name email
                 amount ts existingOrder)"

text \<open>
  Section 6: rate limiting. The two counts are the values of the SQL functions on the
  audit table.
\<close>

definition rate_limiting ::
  "world \<Rightarrow> database \<Rightarrow> string \<Rightarrow> string \<Rightarrow> string \<Rightarrow> user \<Rightarrow>
   string \<Rightarrow> string \<Rightarrow> string \<Rightarrow> rat \<Rightarrow> string \<Rightarrow> outcome" where
  "rate_limiting w db correlationId accessToken locationId u order_no name email amount ts =
     (let userRateCount = get_user_rate_limit_count db (sql_now w) (user_id u)
      in if userRateCount \<ge> USER_RATE_LIMIT then
           (Inr (errorResponse RATE_LIMITED_USER
                   ''Too many requests. Please wait before trying again.''
                   429 correlationId (Some 3600)),
            logAudit w correlationId
              ((audit_failure u ''RATE_LIMITED'' RATE_LIMITED_USER
                  (''User rate limit exceeded: '' @ string_of_int userRateCount @ ''/''
                   @ string_of_int USER_RATE_LIMIT @ '' per hour''))
                 \<lparr>ae_cultivera_order_number := Some order_no\<rparr>))
         else
           (let globalRateCount = get_global_rate_limit_count db (sql_now w)
            in if globalRateCount \<ge> GLOBAL_RATE_LIMIT then
                 (Inr (errorResponse RATE_LIMITED_GLOBAL
                         ''System is busy. Please wait a few minutes before trying again.''
                         429 correlationId (Some 300)),
                  logAudit w correlationId
                    ((audit_failure u ''RATE_LIMITED'' RATE_LIMITED_GLOBAL
                        (''Global rate limit exceeded: '' @ string_of_int globalRateCount @ ''/''
                         @ string_of_int GLOBAL_RATE_LIMIT @ '' per hour''))
                       \<lparr>ae_cultivera_order_number := Some order_no\<rparr>))
               else
                 duplicate_check w db correlationId accessToken locationId u order_no name
                   email amount ts))"

text \<open>
  Section 5: replay protection. \<open>requestTime\<close> is \<open>None\<close> when it is \<open>NaN\<close>; both
  times are integer milliseconds, so the quotient by 1000 is compared exactly.
\<close>

definition ageSeconds :: "world \<Rightarrow> int \<Rightarrow> rat" where
  "ageSeconds w requestTime = of_int (date_now w - requestTime) / 1000"

definition replay_protection ::
  "world \<Rightarrow> database \<Rightarrow> string \<Rightarrow> string \<Rightarrow> string \<Rightarrow> user \<Rightarrow>
   string \<Rightarrow> string \<Rightarrow> string \<Rightarrow> rat \<Rightarrow> string \<Rightarrow> outcome" where
  "replay_protection w db correlationId accessToken locationId u order_no name email amount ts =
     (let requestTime = date_parse w ts
      in if (case requestTime of
               None \<Rightarrow> True
             | Some t \<Rightarrow> ageSeconds w t > REPLAY_WINDOW_SECONDS \<or> ageSeconds w t < - 30) then
           (Inr (errorResponse REPLAY_REJECTED ''Request expired. Please try again.''
                   400 correlationId None),
            logAudit w correlationId
              ((audit_failure u ''REPLAY_REJECTED'' REPLAY_REJECTED
                  (''Request timestamp outside acceptable window (''
                   @ (case requestTime of None \<Rightarrow> ''NaN'' | Some t \<Rightarrow> toFixed1 w (ageSeconds w t))
                   @ ''s old)''))
                 \<lparr>ae_cultivera_order_number := Some order_no,
                   ae_request_timestamp := Some ts\<rparr>))
         else
           rate_limiting w db correlationId accessToken locationId u order_no name email
             amount ts)"

text \<open>Section 4: validation.\<close>

definition missingFields :: "CreateInvoiceRequest \<Rightarrow> string list" where
  "missingFields b =
     (if \<not> truthy (order_number b) then [''order_number''] else []) @
     (if \<not> truthy (customer_name b) then [''customer_name''] else []) @
     (if \<not> truthy (customer_email b) then [''customer_email''] else []) @
     (if amount_cents b = None then [''amount_cents''] else []) @
     (if \<not> truthy (request_timestamp b) then [''request_timestamp''] else [])"

definition validation ::
  "world \<Rightarrow> database \<Rightarrow> string \<Rightarrow> string \<Rightarrow> string \<Rightarrow> user \<Rightarrow>
   CreateInvoiceRequest \<Rightarrow> outcome" where
  "validation w db correlationId accessToken locationId u b =
     (case (order_number b, customer_name b, customer_email b, amount_cents b,
            request_timestamp b) of
        (Some order_no, Some name, Some email, Some amount, Some ts) \<Rightarrow>
          if order_no = [] \<or> name = [] \<or> email = [] \<or> ts = [] then
            (Inr (errorResponse VALIDATION_MISSING_FIELD
                    (''Missing required fields: '' @ join '', '' (missingFields b))
                    400 correlationId None),
             logAudit w correlationId
               ((audit_failure u ''VALIDATION_FAILED'' VALIDATION_MISSING_FIELD
                   (''Missing required fields: '' @ join '', '' (missingFields b)))
                  \<lparr>ae_cultivera_order_number := order_number b\<rparr>))
          else if \<not> isValidOrderNumber order_no then
            (Inr (errorResponse VALIDATION_INVALID_ORDER ''Invalid order number format''
                    400 correlationId None),
             logAudit w correlationId
               ((audit_failure u ''VALIDATION_FAILED'' VALIDATION_INVALID_ORDER
                   ''Invalid order number format'')
                  \<lparr>ae_cultivera_order_number := Some order_no\<rparr>))
          else if \<not> isValidEmail email then
            (Inr (errorResponse VALIDATION_INVALID_EMAIL ''Invalid customer email format''
                    400 correlationId None),
             logAudit w correlationId
               ((audit_failure u ''VALIDATION_FAILED'' VALIDATION_INVALID_EMAIL
                   ''Invalid email format'')
                  \<lparr>ae_cultivera_order_number := Some order_no,
                    ae_customer_email := Some email\<rparr>))
          else if \<not> Number_isInteger amount \<or> amount \<le> 0 \<or> amount > MAX_AMOUNT_CENTS then
            (Inr (errorResponse VALIDATION_INVALID_AMOUNT
                    ''Amount appears invalid (must be positive and not exceed $50,000)''
                    400 correlationId None),
             logAudit w correlationId
               ((audit_failure u ''VALIDATION_FAILED'' VALIDATION_INVALID_AMOUNT
                   ''Amount must be a positive integer not exceeding 5000000 cents'')
                  \<lparr>ae_cultivera_order_number := Some order_no,
                    ae_amount_cents := Some amount\<rparr>))
          else
            replay_protection w db correlationId accessToken locationId u order_no name email
              amount ts
      | _ \<Rightarrow>
          (Inr (errorResponse VALIDATION_MISSING_FIELD
                  (''Missing required fields: '' @ join '', '' (missingFields b))
                  400 correlationId None),
           logAudit w correlationId
             ((audit_failure u ''VALIDATION_FAILED'' VALIDATION_MISSING_FIELD
                 (''Missing required fields: '' @ join '', '' (missingFields b)))
                \<lparr>ae_cultivera_order_number := order_number b\<rparr>)))"

text \<open>Section 3: parse the request body.\<close>

definition parse_body ::
  "world \<Rightarrow> database \<Rightarrow> string \<Rightarrow> string \<Rightarrow> string \<Rightarrow> user \<Rightarrow> request \<Rightarrow> outcome" where
  "parse_body w db correlationId accessToken locationId u req =
     (case req_json req of
        None \<Rightarrow>
          (Inr (errorResponse VALIDATION_MISSING_FIELD ''Invalid request body''
                  400 correlationId None),
           logAudit w correlationId
             (audit_failure u ''VALIDATION_FAILED'' VALIDATION_MISSING_FIELD ''Invalid JSON body''))
      | Some b \<Rightarrow> validation w db correlationId accessToken locationId u b)"

text \<open>Section 2: authorization.\<close>

definition authorization ::
  "world \<Rightarrow> database \<Rightarrow> string \<Rightarrow> string \<Rightarrow> string \<Rightarrow> user \<Rightarrow> request \<Rightarrow> outcome" where
  "authorization w db correlationId accessToken locationId u req =
     (if \<not> rpc_is_authorized_invoicer w (user_id u) then
        (Inr (errorResponse UNAUTHORIZED
                ''Your account is not authorized to create invoices. Contact your admin for access.''
                403 correlationId None),
         logAudit w correlationId
           (audit_failure u ''UNAUTHORIZED'' UNAUTHORIZED
              ''User is not authorized to create invoices''))
      else parse_body w db correlationId accessToken locationId u req)"

text \<open>
  Section 1: authentication. The header starts with \<open>'Bearer '\<close> where
  \<open>replace('Bearer ', '')\<close> is applied, so the replacement drops these seven
  characters. \<open>auth.getUser(jwt)\<close> answers with the user, if any, and the message of
  the error, if any.
\<close>

definition authentication ::
  "world \<Rightarrow> database \<Rightarrow> string \<Rightarrow> string \<Rightarrow> string \<Rightarrow> request \<Rightarrow> outcome" where
  "authentication w db correlationId accessToken locationId req =
     (case req_authorization req of
        None \<Rightarrow>
          (Inr (errorResponse AUTH_MISSING ''Authentication required'' 401 correlationId None),
           logAudit w correlationId
             ((audit_data ''AUTH_MISSING'')
                \<lparr>ae_error_code := Some AUTH_MISSING,
                  ae_error_message := Some ''No authorization header provided''\<rparr>))
      | Some authHeader \<Rightarrow>
          if \<not> startsWith authHeader ''Bearer '' then
            (Inr (errorResponse AUTH_MISSING ''Authentication required'' 401 correlationId None),
             logAudit w correlationId
               ((audit_data ''AUTH_MISSING'')
                  \<lparr>ae_error_code := Some AUTH_MISSING,
                    ae_error_message := Some ''No authorization header provided''\<rparr>))
          else
            (let jwt = drop 7 authHeader
             in case auth_getUser w jwt of
                  (Some u, None) \<Rightarrow>
                    authorization w db correlationId accessToken locationId u req
                | (usr, authError) \<Rightarrow>
                    (let expired = (case authError of
                                      None \<Rightarrow> False
                                    | Some m \<Rightarrow> includes_str m ''expired'');
                         c = (if expired then AUTH_EXPIRED else AUTH_INVALID);
                         msg = (if c = AUTH_EXPIRED then ''Session expired. Please sign in again.''
                                else ''Invalid authentication'')
                     in (Inr (errorResponse c msg 401 correlationId None),
                         logAudit w correlationId
                           ((audit_data ''AUTH_MISSING'')
                              \<lparr>ae_error_code :=
                                  Some (if expired then AUTH_EXPIRED else AUTH_INVALID),
                                ae_error_message :=
                                  Some (case authError of
                                          None \<Rightarrow> ''Invalid authentication token''
                                        | Some m \<Rightarrow>
                                            if m \<noteq> [] then m
                                            else ''Invalid authentication token'')\<rparr>)))))"

text \<open>The handler passed to \<open>Deno.serve\<close>.\<close>

definition env_value :: "string option \<Rightarrow> string" where
  "env_value e = (case e of Some v \<Rightarrow> v | None \<Rightarrow> [])"

definition handler :: "world \<Rightarrow> database \<Rightarrow> request \<Rightarrow> outcome" where
  "handler w db req =
     (if req_method req = ''OPTIONS'' then
        (Inr \<lparr>status = 200, body = NoContent, x_correlation_id = None\<rparr>, [])
      else
        (let correlationId = randomUUID w
         in if req_method req \<noteq> ''POST'' then
              (Inr (errorResponse INTERNAL_ERROR ''Method not allowed'' 405 correlationId None), [])
            else if \<not> truthy (SUPABASE_URL w) \<or> \<not> truthy (SUPABASE_SERVICE_ROLE_KEY w) \<or>
                    \<not> truthy (SQUARE_ACCESS_TOKEN w) \<or> \<not> truthy (SQUARE_LOCATION_ID w) then
              (Inr (errorResponse INTERNAL_ERROR ''Server configuration error'' 500
                      correlationId None),
               [ConsoleError ''Missing required environment variables''])
            else
              authentication w db correlationId
                (env_value (SQUARE_ACCESS_TOKEN w)) (env_value (SQUARE_LOCATION_ID w)) req))"

subsection \<open>Observations on an outcome\<close>

definition status_of :: "outcome \<Rightarrow> nat option" where
  "status_of out = (case fst out of Inl m \<Rightarrow> None | Inr r \<Rightarrow> Some (status r))"

definition error_code_of :: "outcome \<Rightarrow> ErrorCode option" where
  "error_code_of out =
     (case fst out of
        Inl m \<Rightarrow> None
      | Inr r \<Rightarrow> (case body r of ErrorBody cid c msg ra \<Rightarrow> Some c | _ \<Rightarrow> None))"

definition retry_after_of :: "outcome \<Rightarrow> nat option" where
  "retry_after_of out =
     (case fst out of
        Inl m \<Rightarrow> None
      | Inr r \<Rightarrow> (case body r of ErrorBody cid c msg ra \<Rightarrow> ra | _ \<Rightarrow> None))"

fun audits :: "event list \<Rightarrow> audit_entry list" where
  "audits [] = []"
| "audits (AuditInsert e # t) = e # audits t"
| "audits (x # t) = audits t"

fun square_calls :: "event list \<Rightarrow> square_call list" where
  "square_calls [] = []"
| "square_calls (SquareRequest c # t) = c # square_calls t"
| "square_calls (x # t) = square_calls t"

fun ledger_writes :: "event list \<Rightarrow> event list" where
  "ledger_writes [] = []"
| "ledger_writes (LedgerInsert i # t) = LedgerInsert i # ledger_writes t"
| "ledger_writes (LedgerUpdate i p # t) = LedgerUpdate i p # ledger_writes t"
| "ledger_writes (x # t) = ledger_writes t"

text \<open>The values written to \<open>steps_completed\<close>, with the id of the row written.\<close>

fun steps_writes :: "event list \<Rightarrow> (string \<times> string list) list" where
  "steps_writes [] = []"
| "steps_writes (LedgerUpdate i p # t) =
     (case set_steps_completed p of
        Some s \<Rightarrow> (i, s) # steps_writes t
      | None \<Rightarrow> steps_writes t)"
| "steps_writes (x # t) = steps_writes t"

text \<open>The effects other than console output.\<close>

fun effects :: "event list \<Rightarrow> event list" where
  "effects [] = []"
| "effects (ConsoleError m # t) = effects t"
| "effects (x # t) = x # effects t"

subsection \<open>The gates a request passes\<close>

definition config_present :: "world \<Rightarrow> bool" where
  "config_present w =
     (truthy (SUPABASE_URL w) \<and> truthy (SUPABASE_SERVICE_ROLE_KEY w) \<and>
      truthy (SQUARE_ACCESS_TOKEN w) \<and> truthy (SQUARE_LOCATION_ID w))"

text \<open>A POST request, to a configured function, of caller \<open>u\<close> holding the invoicer role.\<close>

definition authorized_caller :: "world \<Rightarrow> request \<Rightarrow> user \<Rightarrow> bool" where
  "authorized_caller w req u =
     (req_method req = ''POST'' \<and> config_present w \<and>
      (case req_authorization req of
         None \<Rightarrow> False
       | Some h \<Rightarrow> startsWith h ''Bearer '' \<and> auth_getUser w (drop 7 h) = (Some u, None)) \<and>
      rpc_is_authorized_invoicer w (user_id u))"

text \<open>A body with all five fields, a well-formed order number and a well-formed email.\<close>

definition fields_valid :: "request \<Rightarrow> string \<Rightarrow> string \<Rightarrow> string \<Rightarrow> rat \<Rightarrow> string \<Rightarrow> bool" where
  "fields_valid req order_no name email amount ts =
     (req_json req =
        Some \<lparr>order_number = Some order_no, customer_name = Some name,
              customer_email = Some email, amount_cents = Some amount,
              request_timestamp = Some ts\<rparr> \<and>
      order_no \<noteq> [] \<and> name \<noteq> [] \<and> email \<noteq> [] \<and> ts \<noteq> [] \<and>
      isValidOrderNumber order_no \<and> isValidEmail email)"

definition amount_valid :: "rat \<Rightarrow> bool" where
  "amount_valid amount = (Number_isInteger amount \<and> 0 < amount \<and> amount \<le> 5000000)"

definition timestamp_fresh :: "world \<Rightarrow> string \<Rightarrow> bool" where
  "timestamp_fresh w ts =
     (case date_parse w ts of
        None \<Rightarrow> False
      | Some t \<Rightarrow> - 30 \<le> ageSeconds w t \<and> ageSeconds w t \<le> 120)"

definition under_limits :: "world \<Rightarrow> database \<Rightarrow> user \<Rightarrow> bool" where
  "under_limits w db u =
     (get_user_rate_limit_count db (sql_now w) (user_id u) < 10 \<and>
      get_global_rate_limit_count db (sql_now w) < 50)"

text \<open>The request passes every gate before the ledger lookup.\<close>

definition reaches_ledger ::
  "world \<Rightarrow> database \<Rightarrow> request \<Rightarrow> user \<Rightarrow> string \<Rightarrow> string \<Rightarrow> string \<Rightarrow> rat \<Rightarrow> string \<Rightarrow> bool" where
  "reaches_ledger w db req u order_no name email amount ts =
     (authorized_caller w req u \<and> fields_valid req order_no name email amount ts \<and>
      amount_valid amount \<and> timestamp_fresh w ts \<and> under_limits w db u)"

subsection \<open>The tables after a request\<close>

text \<open>
  The tables after the handler's writes. An update sets the columns its object carries
  and, by the table's trigger, \<open>updated_at\<close>; an insert that succeeds adds a row with
  the defaults of the table; an audit insert that does not throw adds a row.
\<close>

definition apply_patch :: "string \<Rightarrow> order_patch \<Rightarrow> processed_order \<Rightarrow> processed_order" where
  "apply_patch now p r =
     r\<lparr>po_status := (case set_status p of None \<Rightarrow> po_status r | Some s \<Rightarrow> s),
       po_square_customer_id :=
         (case set_square_customer_id p of None \<Rightarrow> po_square_customer_id r | Some c \<Rightarrow> Some c),
       po_square_order_id :=
         (case set_square_order_id p of None \<Rightarrow> po_square_order_id r | Some c \<Rightarrow> Some c),
       po_square_invoice_id :=
         (case set_square_invoice_id p of None \<Rightarrow> po_square_invoice_id r | Some c \<Rightarrow> Some c),
       po_steps_completed :=
         (case set_steps_completed p of None \<Rightarrow> po_steps_completed r | Some s \<Rightarrow> s),
       po_error_message :=
         (case set_error_message p of None \<Rightarrow> po_error_message r | Some m \<Rightarrow> Some m),
       po_completed_at :=
         (case set_completed_at p of None \<Rightarrow> po_completed_at r | Some d \<Rightarrow> Some d),
       po_updated_at := Some now\<rparr>"

definition new_order_row :: "string \<Rightarrow> string \<Rightarrow> order_insert \<Rightarrow> processed_order" where
  "new_order_row now i ins =
     \<lparr>po_id = i, po_order_number = ins_order_number ins, po_user_id = ins_user_id ins,
      po_status = ins_status ins, po_square_customer_id = None, po_square_order_id = None,
      po_square_invoice_id = None, po_steps_completed = [],
      po_amount_cents = ins_amount_cents ins, po_customer_name = ins_customer_name ins,
      po_customer_email = ins_customer_email ins,
      po_idempotency_key = ins_idempotency_key ins, po_error_message = None,
      po_updated_at = Some now, po_completed_at = None\<rparr>"

fun apply_event :: "world \<Rightarrow> database \<Rightarrow> event \<Rightarrow> database" where
  "apply_event w db (AuditInsert e) =
     (if audit_insert_throws w then db
      else db\<lparr>invoice_audit_log :=
                invoice_audit_log db @ [\<lparr>ar_timestamp = sql_now w, ar_entry = e\<rparr>]\<rparr>)"
| "apply_event w db (LedgerInsert ins) =
     (case order_insert_result w of
        Inserted i \<Rightarrow>
          db\<lparr>processed_orders := processed_orders db @ [new_order_row (toISOString w) i ins]\<rparr>
      | InsertError c m \<Rightarrow> db)"
| "apply_event w db (LedgerUpdate i p) =
     db\<lparr>processed_orders :=
          map (\<lambda>r. if po_id r = i then apply_patch (toISOString w) p r else r)
            (processed_orders db)\<rparr>"
| "apply_event w db (SquareRequest c) = db"
| "apply_event w db (ConsoleError m) = db"

definition database_after :: "world \<Rightarrow> database \<Rightarrow> request \<Rightarrow> database" where
  "database_after w db req = foldl (apply_event w) db (snd (handler w db req))"

subsection \<open>Notions used in the properties\<close>

text \<open>The \<open>try\<close> block with the configuration the handler passes to it.\<close>

definition saga :: "world \<Rightarrow> string \<Rightarrow> string \<Rightarrow> string \<Rightarrow> rat \<Rightarrow> string \<Rightarrow> saga_run" where
  "saga w order_no name email amount processedOrderId =
     try_block w order_no name email amount (env_value (SQUARE_LOCATION_ID w))
       (env_value (SQUARE_ACCESS_TOKEN w)) processedOrderId"

text \<open>The id of the ledger record the saga runs on, when the request gets that far.\<close>

definition record_id :: "world \<Rightarrow> database \<Rightarrow> string \<Rightarrow> string option" where
  "record_id w db order_no =
     (case select_order db order_no of
        Some r \<Rightarrow> if po_status r = Completed then None else Some (po_id r)
      | None \<Rightarrow>
          (case order_insert_result w of
             Inserted i \<Rightarrow> Some i
           | InsertError c m \<Rightarrow> None))"

text \<open>The write of section 8 that precedes the saga.\<close>

definition upsert_event :: "world \<Rightarrow> database \<Rightarrow> user \<Rightarrow> string \<Rightarrow> string \<Rightarrow> string \<Rightarrow> rat \<Rightarrow> event" where
  "upsert_event w db u order_no name email amount =
     (case select_order db order_no of
        Some r \<Rightarrow>
          LedgerUpdate (po_id r)
            (no_patch\<lparr>set_status := Some Processing, set_updated_at := Some (toISOString w)\<rparr>)
      | None \<Rightarrow>
          LedgerInsert
            \<lparr>ins_order_number = order_no, ins_user_id = user_id u, ins_status = Processing,
             ins_amount_cents = amount, ins_customer_name = name, ins_customer_email = email,
             ins_idempotency_key = ''cultivera-'' @ order_no\<rparr>)"

text \<open>The error codes, or none, of a response of the saga.\<close>

definition saga_codes :: "ErrorCode option set" where
  "saga_codes =
     {None, Some SQUARE_CUSTOMER_ERROR, Some SQUARE_ORDER_ERROR, Some SQUARE_INVOICE_ERROR,
      Some SQUARE_PUBLISH_ERROR, Some SQUARE_API_ERROR}"

text \<open>
  An outcome without any request to the platform and without any write to the ledger.
\<close>

definition harmless :: "outcome \<Rightarrow> bool" where
  "harmless out = (square_calls (snd out) = [] \<and> ledger_writes (snd out) = [])"

text \<open>
  What a request to the platform must carry for order \<open>order_no\<close>: a create or publish
  request has its prefix followed by the order number as idempotency key, in the body and
  in the header; the search and the fetch have none.
\<close>

definition carries_key :: "string \<Rightarrow> square_call \<Rightarrow> bool" where
  "carries_key order_no c =
     (case sq_body c of
        NoBody \<Rightarrow> sq_idempotency_key c = None
      | SearchCustomers e \<Rightarrow> sq_idempotency_key c = None
      | CreateCustomer k g f e \<Rightarrow>
          k = ''cust-'' @ order_no \<and> sq_idempotency_key c = Some k
      | CreateOrder k l cu r nm a \<Rightarrow>
          k = ''ord-'' @ order_no \<and> sq_idempotency_key c = Some k
      | CreateInvoice k oi l cu d ti \<Rightarrow>
          k = ''inv-'' @ order_no \<and> sq_idempotency_key c = Some k
      | PublishInvoice k v \<Rightarrow>
          k = ''pub-'' @ order_no \<and> sq_idempotency_key c = Some k)"

text \<open>
  The message of the exception a failed call throws: the message of the rejection, or the
  call's label followed by the detail of the first platform error.
\<close>

definition failure_of :: "string \<Rightarrow> 'a square_response \<Rightarrow> string list" where
  "failure_of label r =
     (case r of
        Rejects m \<Rightarrow> [m]
      | Errors errs \<Rightarrow> [label @ first_detail errs]
      | Returns x \<Rightarrow> [])"

definition platform_failures :: "world \<Rightarrow> string list" where
  "platform_failures w =
     failure_of ''Customer search failed: '' (customers_search w) @
     failure_of ''Customer creation failed: '' (customers_create w) @
     failure_of ''Order creation failed: '' (orders_create w) @
     failure_of ''Invoice creation failed: '' (invoices_create w) @
     failure_of ''Failed to get invoice: '' (invoices_get w) @
     failure_of ''Invoice publish failed: '' (invoices_publish w)"

text \<open>
  One write of \<open>steps_completed\<close> extends another: same row, and the earlier list is a
  prefix of the later.
\<close>

definition extends :: "string \<times> string list \<Rightarrow> string \<times> string list \<Rightarrow> bool" where
  "extends p q = (fst p = fst q \<and> prefix (snd p) (snd q))"

text \<open>
  A run from variables \<open>v0\<close> only appends to \<open>stepsCompleted\<close>, and each of its
  writes, to row \<open>pid\<close>, lies between the list at the start and the list at the end.
\<close>

definition appends_only :: "string \<Rightarrow> saga_vars \<Rightarrow> saga_run \<Rightarrow> bool" where
  "appends_only pid v0 r =
     (prefix (stepsCompleted v0) (stepsCompleted (fst (snd r))) \<and>
      sorted_wrt extends (steps_writes (snd (snd r))) \<and>
      list_all (\<lambda>p. fst p = pid \<and> prefix (stepsCompleted v0) (snd p) \<and>
                     prefix (snd p) (stepsCompleted (fst (snd r))))
        (steps_writes (snd (snd r))))"

text \<open>What the caller and the stores observe of an outcome: all but console output.\<close>

definition observable :: "outcome \<Rightarrow> (string + response) \<times> event list" where
  "observable out = (fst out, effects (snd out))"

text \<open>
  An outcome that is a response has exactly one audit insert, after every other effect.
\<close>

definition audited_once :: "outcome \<Rightarrow> bool" where
  "audited_once out =
     (case fst out of
        Inl m \<Rightarrow> True
      | Inr r \<Rightarrow>
          length (audits (snd out)) = 1 \<and>
          (case last (effects (snd out)) of AuditInsert e \<Rightarrow> True | _ \<Rightarrow> False))"

subsection \<open>A concrete scenario\<close>

text \<open>
  The end-to-end scenario: order 7600 for Jane Doe, 3250 cents, sent 60 seconds ago by an
  authorized caller, against a platform that accepts every call and an empty database.
\<close>

definition example_user :: user where
  "example_user = \<lparr>user_id = ''u1'', user_email = Some ''clerk@example.org''\<rparr>"

definition example_world :: world where
  "example_world =
     \<lparr>SUPABASE_URL = Some ''https://project.supabase.co'',
      SUPABASE_SERVICE_ROLE_KEY = Some ''service-key'',
      SQUARE_ACCESS_TOKEN = Some ''square-token'',
      SQUARE_LOCATION_ID = Some ''LOC1'',
      randomUUID = ''c0ffee'',
      date_now = 1704067260000,
      date_parse = (\<lambda>s. if s = ''2024-01-01T00:00:00.000Z'' then Some 1704067200000 else None),
      toISOString = ''2024-01-01T00:01:00.000Z'',
      due_date = ''2024-01-31'',
      toFixed1 = (\<lambda>q. ''60.0''),
      sql_now = 1704067260000,
      auth_getUser = (\<lambda>jwt. if jwt = ''jwt-u1'' then (Some example_user, None)
                           else (None, Some ''invalid JWT'')),
      rpc_is_authorized_invoicer = (\<lambda>uid. uid = ''u1''),
      audit_insert_throws = False,
      order_insert_result = Inserted ''po-1'',
      customers_search = Returns [],
      customers_create = Returns \<lparr>customer_id = ''CUST1''\<rparr>,
      orders_create = Returns ''ORD1'',
      invoices_create = Returns (''INV1'', ''000042''),
      invoices_get = Returns 0,
      invoices_publish = Returns ()\<rparr>"

definition example_body :: CreateInvoiceRequest where
  "example_body =
     \<lparr>order_number = Some ''7600'', customer_name = Some ''Jane Doe'',
      customer_email = Some ''jane@example.org'', amount_cents = Some 3250,
      request_timestamp = Some ''2024-01-01T00:00:00.000Z''\<rparr>"

definition example_request :: request where
  "example_request =
     \<lparr>req_method = ''POST'', req_authorization = Some ''Bearer jwt-u1'',
      req_json = Some example_body\<rparr>"

definition empty_database :: database where
  "empty_database = \<lparr>processed_orders = [], invoice_audit_log = []\<rparr>"

text \<open>The ledger row of order 7600 in a given status with given stored steps.\<close>

definition example_order :: "order_status \<Rightarrow> string list \<Rightarrow> processed_order" where
  "example_order st steps =
     \<lparr>po_id = ''po-1'', po_order_number = ''7600'', po_user_id = ''u1'', po_status = st,
      po_square_customer_id = Some ''CUST1'', po_square_order_id = Some ''ORD1'',
      po_square_invoice_id = Some ''INV1'', po_steps_completed = steps,
      po_amount_cents = 3250, po_customer_name = ''Jane Doe'',
      po_customer_email = ''jane@example.org'', po_idempotency_key = ''cultivera-7600'',
      po_error_message = None, po_updated_at = None, po_completed_at = None\<rparr>"

definition example_database :: "order_status \<Rightarrow> string list \<Rightarrow> database" where
  "example_database st steps =
     \<lparr>processed_orders = [example_order st steps], invoice_audit_log = []\<rparr>"

text \<open>
  An audit table with \<open>k\<close> counted rows of the caller and \<open>m\<close> of another user, all
  written one minute before \<open>sql_now\<close>.
\<close>

definition example_audit_row :: "string \<Rightarrow> audit_row" where
  "example_audit_row uid =
     \<lparr>ar_timestamp = 1704067200000,
      ar_entry = (audit_data ''SUCCESS'')\<lparr>ae_user_id := Some uid\<rparr>\<rparr>"

definition busy_database :: "nat \<Rightarrow> nat \<Rightarrow> database" where
  "busy_database k m =
     \<lparr>processed_orders = [],
      invoice_audit_log = replicate k (example_audit_row ''u1'') @ replicate m (example_audit_row ''u2'')\<rparr>"

text \<open>A platform that knows the customer and refuses the order.\<close>

definition order_refused :: world where
  "order_refused =
     example_world
       \<lparr>customers_search := Returns [\<lparr>customer_id = ''CUST1''\<rparr>],
        orders_create := Errors [\<lparr>category = ''INVALID_REQUEST_ERROR'', code = ''NOT_FOUND'',
                                  detail = ''Location not found''\<rparr>]\<rparr>"

text \<open>A platform that refuses to publish, and one that refuses the customer search.\<close>

definition publish_refused :: world where
  "publish_refused =
     example_world
       \<lparr>invoices_publish := Errors [\<lparr>category = ''INVALID_REQUEST_ERROR'', code = ''VERSION_MISMATCH'',
                                     detail = ''Invoice version mismatch''\<rparr>]\<rparr>"

definition search_refused :: world where
  "search_refused =
     example_world
       \<lparr>customers_search := Errors [\<lparr>category = ''AUTHENTICATION_ERROR'', code = ''UNAUTHORIZED'',
                                     detail = ''Token expired''\<rparr>]\<rparr>"

section \<open>Properties\<close>

subsection \<open>Effects of a list of events\<close>

lemma audits_append: "audits (a @ b) = audits a @ audits b"
  by (induction a rule: audits.induct) simp_all

lemma square_calls_append: "square_calls (a @ b) = square_calls a @ square_calls b"
  by (induction a rule: square_calls.induct) simp_all

lemma steps_writes_append: "steps_writes (a @ b) = steps_writes a @ steps_writes b"
  by (induction a rule: steps_writes.induct) (simp_all split: option.splits)

lemma effects_append: "effects (a @ b) = effects a @ effects b"
  by (induction a rule: effects.induct) simp_all

lemma logAudit_audits: "audits (logAudit w cid d) = [d\<lparr>ae_correlation_id := cid\<rparr>]"
  by (simp add: logAudit_def)

lemma logAudit_steps_writes: "steps_writes (logAudit w cid d) = []"
  by (simp add: logAudit_def)

subsection \<open>The sections a request passes\<close>

lemma handler_authorized:
  assumes "authorized_caller w req u"
  shows "handler w db req =
         parse_body w db (randomUUID w) (env_value (SQUARE_ACCESS_TOKEN w))
           (env_value (SQUARE_LOCATION_ID w)) u req"
proof -
  from assms obtain h where h: "req_authorization req = Some h" "startsWith h ''Bearer ''"
      "auth_getUser w (drop 7 h) = (Some u, None)"
    and m: "req_method req = ''POST''" and c: "config_present w"
    and a: "rpc_is_authorized_invoicer w (user_id u)"
    by (auto simp: authorized_caller_def split: option.splits)
  have "handler w db req =
        authentication w db (randomUUID w) (env_value (SQUARE_ACCESS_TOKEN w))
          (env_value (SQUARE_LOCATION_ID w)) req"
    using m c by (simp add: handler_def config_present_def)
  also have "\<dots> = authorization w db (randomUUID w) (env_value (SQUARE_ACCESS_TOKEN w))
          (env_value (SQUARE_LOCATION_ID w)) u req"
    using h by (simp add: authentication_def)
  also have "\<dots> = parse_body w db (randomUUID w) (env_value (SQUARE_ACCESS_TOKEN w))
          (env_value (SQUARE_LOCATION_ID w)) u req"
    using a by (simp add: authorization_def)
  finally show ?thesis .
qed

lemma parse_body_fields:
  assumes "fields_valid req n name email a ts"
  shows "parse_body w db cid tok loc u req =
         (if \<not> Number_isInteger a \<or> a \<le> 0 \<or> a > MAX_AMOUNT_CENTS then
            (Inr (errorResponse VALIDATION_INVALID_AMOUNT
                    ''Amount appears invalid (must be positive and not exceed $50,000)''
                    400 cid None),
             logAudit w cid
               ((audit_failure u ''VALIDATION_FAILED'' VALIDATION_INVALID_AMOUNT
                   ''Amount must be a positive integer not exceeding 5000000 cents'')
                  \<lparr>ae_cultivera_order_number := Some n, ae_amount_cents := Some a\<rparr>))
          else replay_protection w db cid tok loc u n name email a ts)"
  using assms by (simp add: fields_valid_def parse_body_def validation_def)

lemma amount_valid_iff:
  "amount_valid a = (\<not> (\<not> Number_isInteger a \<or> a \<le> 0 \<or> a > MAX_AMOUNT_CENTS))"
  by (auto simp: amount_valid_def MAX_AMOUNT_CENTS_def)

lemma replay_protection_fresh:
  "timestamp_fresh w ts \<Longrightarrow>
   replay_protection w db cid tok loc u n name email a ts =
   rate_limiting w db cid tok loc u n name email a ts"
  by (auto simp: timestamp_fresh_def replay_protection_def REPLAY_WINDOW_SECONDS_def
      split: option.splits)

lemma replay_protection_stale:
  "\<not> timestamp_fresh w ts \<Longrightarrow>
   error_code_of (replay_protection w db cid tok loc u n name email a ts) = Some REPLAY_REJECTED \<and>
   status_of (replay_protection w db cid tok loc u n name email a ts) = Some 400"
  by (auto simp: timestamp_fresh_def replay_protection_def REPLAY_WINDOW_SECONDS_def
      error_code_of_def status_of_def errorResponse_def jsonResponse_def Let_def
      split: option.splits)

lemma rate_limiting_under:
  "under_limits w db u \<Longrightarrow>
   rate_limiting w db cid tok loc u n name email a ts =
   duplicate_check w db cid tok loc u n name email a ts"
  by (simp add: under_limits_def rate_limiting_def USER_RATE_LIMIT_def GLOBAL_RATE_LIMIT_def Let_def)

lemma handler_reaches_ledger:
  assumes "reaches_ledger w db req u n name email a ts"
  shows "handler w db req =
         duplicate_check w db (randomUUID w) (env_value (SQUARE_ACCESS_TOKEN w))
           (env_value (SQUARE_LOCATION_ID w)) u n name email a ts"
proof -
  from assms have c: "authorized_caller w req u" and f: "fields_valid req n name email a ts"
    and v: "amount_valid a" and t: "timestamp_fresh w ts" and l: "under_limits w db u"
    by (simp_all add: reaches_ledger_def)
  from v have v': "\<not> (\<not> Number_isInteger a \<or> a \<le> 0 \<or> a > MAX_AMOUNT_CENTS)"
    by (simp add: amount_valid_iff)
  show ?thesis
    unfolding handler_authorized [OF c] parse_body_fields [OF f]
      if_not_P [OF v'] replay_protection_fresh [OF t] rate_limiting_under [OF l] ..
qed

subsection \<open>The effects of the saga\<close>

lemma and_then_Some: "and_then (Some e, v, t) f = (Some e, v, t)"
  by (simp add: and_then_def)

lemma and_then_None:
  "and_then (None, v, t) f = (fst (f v), fst (snd (f v)), t @ snd (snd (f v)))"
  by (simp add: and_then_def split: prod.splits)

lemmas step_defs =
  step_customer_def step_order_def step_invoice_def step_publish_def
  searchCustomerByEmail_def createCustomer_def createOrder_def createInvoice_def
  publishInvoice_def squareRequest_def push_def Let_def

lemmas step_splits = square_response.splits list.splits option.splits prod.splits

lemma step_customer_quiet:
  "audits (snd (snd (step_customer w n name email tok pid v))) = [] \<and>
   effects (snd (snd (step_customer w n name email tok pid v))) =
     snd (snd (step_customer w n name email tok pid v))"
  by (simp add: step_defs split: step_splits)

lemma step_order_quiet:
  "audits (snd (snd (step_order w n a loc tok pid v))) = [] \<and>
   effects (snd (snd (step_order w n a loc tok pid v))) =
     snd (snd (step_order w n a loc tok pid v))"
  by (simp add: step_defs split: step_splits)

lemma step_invoice_quiet:
  "audits (snd (snd (step_invoice w n loc tok pid v))) = [] \<and>
   effects (snd (snd (step_invoice w n loc tok pid v))) =
     snd (snd (step_invoice w n loc tok pid v))"
  by (simp add: step_defs split: step_splits)

lemma step_publish_quiet:
  "audits (snd (snd (step_publish w n tok pid v))) = [] \<and>
   effects (snd (snd (step_publish w n tok pid v))) =
     snd (snd (step_publish w n tok pid v))"
  by (simp add: step_defs split: step_splits)

lemma and_then_trace:
  assumes "P (snd (snd r))" and "\<And>v. P (snd (snd (f v)))"
    and "\<And>a b. P a \<Longrightarrow> P b \<Longrightarrow> P (a @ b)"
  shows "P (snd (snd (and_then r f)))"
proof (cases r)
  case (fields x v t)
  show ?thesis
  proof (cases x)
    case None
    with fields assms(1) assms(2) [of v] assms(3) show ?thesis
      by (simp add: and_then_None)
  next
    case (Some e)
    with fields assms(1) show ?thesis
      by (simp add: and_then_Some)
  qed
qed

lemma try_block_trace:
  assumes "\<And>v. P (snd (snd (step_customer w n name email tok pid v)))"
    and "\<And>v. P (snd (snd (step_order w n a loc tok pid v)))"
    and "\<And>v. P (snd (snd (step_invoice w n loc tok pid v)))"
    and "\<And>v. P (snd (snd (step_publish w n tok pid v)))"
    and "\<And>a b. P a \<Longrightarrow> P b \<Longrightarrow> P (a @ b)"
  shows "P (snd (snd (try_block w n name email a loc tok pid)))"
  unfolding try_block_def
  by (rule and_then_trace [where P = P], rule and_then_trace [where P = P],
      rule and_then_trace [where P = P]) (fact assms)+

lemma try_block_quiet:
  "audits (snd (snd (try_block w n name email a loc tok pid))) = [] \<and>
   effects (snd (snd (try_block w n name email a loc tok pid))) =
     snd (snd (try_block w n name email a loc tok pid))"
  by (rule try_block_trace [where P = "\<lambda>t. audits t = [] \<and> effects t = t"])
     (simp_all add: step_customer_quiet step_order_quiet step_invoice_quiet step_publish_quiet
        audits_append effects_append)

subsection \<open>String search\<close>

lemma startsWith_iff: "startsWith s p = (\<exists>b. s = p @ b)"
  by (induction s p rule: startsWith.induct) auto

lemma includes_str_iff: "includes_str s p = (\<exists>a b. s = a @ p @ b)"
proof (induction s)
  case Nil
  then show ?case by simp
next
  case (Cons c cs)
  show ?case
  proof
    assume "includes_str (c # cs) p"
    then consider "startsWith (c # cs) p" | "includes_str cs p" by auto
    then show "\<exists>a b. c # cs = a @ p @ b"
    proof cases
      case 1
      then obtain b where "c # cs = p @ b" by (auto simp: startsWith_iff)
      then have "c # cs = [] @ p @ b" by simp
      then show ?thesis by blast
    next
      case 2
      with Cons obtain a b where "cs = a @ p @ b" by auto
      then have "c # cs = (c # a) @ p @ b" by simp
      then show ?thesis by blast
    qed
  next
    assume "\<exists>a b. c # cs = a @ p @ b"
    then obtain a b where ab: "c # cs = a @ p @ b" by auto
    show "includes_str (c # cs) p"
    proof (cases a)
      case Nil
      with ab have "startsWith (c # cs) p" by (auto simp: startsWith_iff)
      then show ?thesis by simp
    next
      case (Cons x xs)
      with ab have "cs = xs @ p @ b" by simp
      with Cons.IH have "includes_str cs p" by blast
      then show ?thesis by simp
    qed
  qed
qed

subsection \<open>Error codes of the later sections\<close>

lemma orchestration_codes:
  "error_code_of (orchestration w cid tok loc u n name email a ts pid) \<in> saga_codes"
proof (cases "try_block w n name email a loc tok pid")
  case (fields x v t)
  then show ?thesis
    by (cases x)
       (simp_all add: orchestration_def classify_def error_code_of_def errorResponse_def
          jsonResponse_def saga_codes_def Let_def)
qed

lemma error_code_of_cons [simp]: "error_code_of (r, e # t) = error_code_of (r, t)"
  by (simp add: error_code_of_def)

lemma upsert_record_codes:
  "error_code_of (upsert_record w cid tok loc u n name email a ts ex)
     \<in> insert (Some DUPLICATE_ORDER) saga_codes"
proof -
  have o: "\<And>pid r t. orchestration w cid tok loc u n name email a ts pid = (r, t) \<Longrightarrow>
                 error_code_of (r, t) \<in> saga_codes"
    using orchestration_codes by metis
  show ?thesis
    by (auto simp: upsert_record_def Let_def o errorResponse_def jsonResponse_def
        split: option.splits prod.splits insert_result.splits)
       (simp_all add: error_code_of_def saga_codes_def)
qed

lemma duplicate_check_codes:
  "error_code_of (duplicate_check w db cid tok loc u n name email a ts)
     \<in> insert (Some DUPLICATE_ORDER) saga_codes"
  using upsert_record_codes
  by (auto simp: duplicate_check_def Let_def split: option.splits)
     (simp_all add: error_code_of_def errorResponse_def jsonResponse_def)

lemma rate_limiting_codes:
  "error_code_of (rate_limiting w db cid tok loc u n name email a ts)
     \<in> {Some RATE_LIMITED_USER, Some RATE_LIMITED_GLOBAL, Some DUPLICATE_ORDER} \<union> saga_codes"
  using duplicate_check_codes [of w db cid tok loc u n name email a ts]
  by (auto simp: rate_limiting_def Let_def)
     (simp_all add: error_code_of_def errorResponse_def jsonResponse_def)

lemma replay_protection_codes:
  "error_code_of (replay_protection w db cid tok loc u n name email a ts)
     \<in> {Some REPLAY_REJECTED, Some RATE_LIMITED_USER, Some RATE_LIMITED_GLOBAL,
         Some DUPLICATE_ORDER} \<union> saga_codes"
  using rate_limiting_codes [of w db cid tok loc u n name email a ts]
  by (auto simp: replay_protection_def Let_def)
     (simp_all add: error_code_of_def errorResponse_def jsonResponse_def)

lemma Number_isInteger_iff: "Number_isInteger x = (x \<in> \<int>)"
  unfolding Number_isInteger_def
  by (metis Ints_cases Ints_of_int floor_of_int)

lemma handler_fields:
  assumes "authorized_caller w req u" and "fields_valid req n name email a ts"
  shows "handler w db req =
         (if \<not> Number_isInteger a \<or> a \<le> 0 \<or> a > MAX_AMOUNT_CENTS then
            (Inr (errorResponse VALIDATION_INVALID_AMOUNT
                    ''Amount appears invalid (must be positive and not exceed $50,000)''
                    400 (randomUUID w) None),
             logAudit w (randomUUID w)
               ((audit_failure u ''VALIDATION_FAILED'' VALIDATION_INVALID_AMOUNT
                   ''Amount must be a positive integer not exceeding 5000000 cents'')
                  \<lparr>ae_cultivera_order_number := Some n, ae_amount_cents := Some a\<rparr>))
          else replay_protection w db (randomUUID w) (env_value (SQUARE_ACCESS_TOKEN w))
                 (env_value (SQUARE_LOCATION_ID w)) u n name email a ts)"
  unfolding handler_authorized [OF assms(1)] parse_body_fields [OF assms(2)] ..

lemma handler_amount_valid:
  assumes "authorized_caller w req u" and "fields_valid req n name email a ts"
    and "amount_valid a"
  shows "handler w db req =
         replay_protection w db (randomUUID w) (env_value (SQUARE_ACCESS_TOKEN w))
           (env_value (SQUARE_LOCATION_ID w)) u n name email a ts"
  using assms(3) unfolding handler_fields [OF assms(1,2)] amount_valid_iff by simp

lemma handler_amount_invalid:
  assumes "authorized_caller w req u" and "fields_valid req n name email a ts"
    and "\<not> amount_valid a"
  shows "error_code_of (handler w db req) = Some VALIDATION_INVALID_AMOUNT \<and>
         status_of (handler w db req) = Some 400"
  using assms(3) unfolding handler_fields [OF assms(1,2)] amount_valid_iff
  by (simp add: error_code_of_def status_of_def errorResponse_def jsonResponse_def)

lemma amount_accept_iff:
  assumes "authorized_caller w req u" and "fields_valid req n name email a ts"
  shows "(error_code_of (handler w db req) = Some VALIDATION_INVALID_AMOUNT) = (\<not> amount_valid a)"
proof (cases "amount_valid a")
  case True
  have "error_code_of (handler w db req) \<noteq> Some VALIDATION_INVALID_AMOUNT"
    using replay_protection_codes
      [of w db "randomUUID w" "env_value (SQUARE_ACCESS_TOKEN w)"
          "env_value (SQUARE_LOCATION_ID w)" u n name email a ts]
    unfolding handler_amount_valid [OF assms True]
    by (auto simp: saga_codes_def)
  with True show ?thesis by simp
next
  case False
  with handler_amount_invalid [OF assms False] show ?thesis by simp
qed

subsection \<open>Facts of the concrete scenario\<close>

lemma example_email_valid: "isValidEmail ''jane@example.org''"
  by code_simp

lemma example_order_number_valid: "isValidOrderNumber ''7600''"
  by code_simp

lemma example_authorized:
  "authorized_caller (example_world\<lparr>date_now := d\<rparr>) (example_request\<lparr>req_json := b\<rparr>) example_user"
  by (simp add: authorized_caller_def example_world_def example_request_def example_user_def
      config_present_def truthy_def)

lemma example_fields:
  "fields_valid (example_request\<lparr>req_json := Some (example_body\<lparr>amount_cents := Some a\<rparr>)\<rparr>)
     ''7600'' ''Jane Doe'' ''jane@example.org'' a ''2024-01-01T00:00:00.000Z''"
  by (simp add: fields_valid_def example_request_def example_body_def example_email_valid
      example_order_number_valid)

lemma handler_stale:
  assumes "authorized_caller w req u" and "fields_valid req n name email a ts"
    and "amount_valid a" and "\<not> timestamp_fresh w ts"
  shows "error_code_of (handler w db req) = Some REPLAY_REJECTED \<and>
         status_of (handler w db req) = Some 400"
  unfolding handler_amount_valid [OF assms(1,2,3)]
  by (rule replay_protection_stale [OF assms(4)])

lemma handler_fresh:
  assumes "authorized_caller w req u" and "fields_valid req n name email a ts"
    and "amount_valid a" and "timestamp_fresh w ts"
  shows "handler w db req =
         rate_limiting w db (randomUUID w) (env_value (SQUARE_ACCESS_TOKEN w))
           (env_value (SQUARE_LOCATION_ID w)) u n name email a ts"
  unfolding handler_amount_valid [OF assms(1,2,3)]
  by (rule replay_protection_fresh [OF assms(4)])

lemma replay_reject_iff:
  assumes "authorized_caller w req u" and "fields_valid req n name email a ts"
    and "amount_valid a"
  shows "(error_code_of (handler w db req) = Some REPLAY_REJECTED) = (\<not> timestamp_fresh w ts)"
proof (cases "timestamp_fresh w ts")
  case True
  have "error_code_of (handler w db req) \<noteq> Some REPLAY_REJECTED"
    using rate_limiting_codes
      [of w db "randomUUID w" "env_value (SQUARE_ACCESS_TOKEN w)"
          "env_value (SQUARE_LOCATION_ID w)" u n name email a ts]
    unfolding handler_fresh [OF assms True]
    by (auto simp: saga_codes_def)
  with True show ?thesis by simp
next
  case False
  with handler_stale [OF assms False] show ?thesis by simp
qed

lemma timestamp_fresh_iff:
  "timestamp_fresh w ts =
   (\<exists>t. date_parse w ts = Some t \<and> - 30 \<le> ageSeconds w t \<and> ageSeconds w t \<le> 120)"
  by (simp add: timestamp_fresh_def split: option.splits)

lemma example_amount_valid: "amount_valid 3250"
  by (simp add: amount_valid_def Number_isInteger_def)

lemma example_fields_3250:
  "fields_valid example_request
     ''7600'' ''Jane Doe'' ''jane@example.org'' 3250 ''2024-01-01T00:00:00.000Z''"
  by (simp add: fields_valid_def example_request_def example_body_def example_email_valid
      example_order_number_valid)

lemma example_request_json: "example_request\<lparr>req_json := Some example_body\<rparr> = example_request"
  by (simp add: example_request_def)

lemma example_authorized_request:
  "authorized_caller (example_world\<lparr>date_now := d\<rparr>) example_request example_user"
  using example_authorized [of d "Some example_body"] by (simp add: example_request_json)

lemma example_fresh: "timestamp_fresh (example_world\<lparr>date_now := 1704067260000\<rparr>) ''2024-01-01T00:00:00.000Z''"
  by (simp add: timestamp_fresh_def example_world_def ageSeconds_def)

lemma busy_user_count:
  "get_user_rate_limit_count (busy_database k m) 1704067260000 ''u1'' = int k"
  by (simp add: get_user_rate_limit_count_def busy_database_def example_audit_row_def
      counted_def audit_data_def)

lemma busy_global_count:
  "get_global_rate_limit_count (busy_database k m) 1704067260000 = int k + int m"
  by (simp add: get_global_rate_limit_count_def busy_database_def example_audit_row_def
      counted_def audit_data_def)

subsection \<open>Exits before the ledger\<close>

lemma harmless_logAudit [simp]: "harmless (r, logAudit w cid d)"
  by (simp add: harmless_def logAudit_def)

lemma handler_harmless_or_authorized:
  "harmless (handler w db req) \<or> (\<exists>u. authorized_caller w req u)"
proof (cases "req_method req = ''POST'' \<and> config_present w")
  case False
  then show ?thesis
    by (auto simp: handler_def config_present_def harmless_def Let_def)
next
  case True
  then have h: "handler w db req =
        authentication w db (randomUUID w) (env_value (SQUARE_ACCESS_TOKEN w))
          (env_value (SQUARE_LOCATION_ID w)) req"
    by (simp add: handler_def config_present_def)
  show ?thesis
  proof (cases "\<exists>u. authorized_caller w req u")
    case True
    then show ?thesis by simp
  next
    case False
    with True have n: "\<And>h u. req_authorization req = Some h \<Longrightarrow> startsWith h ''Bearer '' \<Longrightarrow>
        auth_getUser w (drop 7 h) = (Some u, None) \<Longrightarrow> \<not> rpc_is_authorized_invoicer w (user_id u)"
      by (auto simp: authorized_caller_def)
    have "harmless (authentication w db (randomUUID w) (env_value (SQUARE_ACCESS_TOKEN w))
          (env_value (SQUARE_LOCATION_ID w)) req)"
    proof (cases "req_authorization req")
      case None
      then show ?thesis by (simp add: authentication_def)
    next
      case (Some h)
      show ?thesis
      proof (cases "startsWith h ''Bearer ''")
        case False
        with Some show ?thesis by (simp add: authentication_def)
      next
        case True
        obtain usr err where g: "auth_getUser w (drop 7 h) = (usr, err)"
          by (cases "auth_getUser w (drop 7 h)")
        show ?thesis
        proof (cases "\<exists>u'. usr = Some u' \<and> err = None")
          case True
          then obtain u' where u': "usr = Some u'" "err = None" by blast
          with n [OF Some \<open>startsWith h ''Bearer ''\<close>] g
          have "\<not> rpc_is_authorized_invoicer w (user_id u')" by simp
          with Some \<open>startsWith h ''Bearer ''\<close> g u' show ?thesis
            by (simp add: authentication_def authorization_def)
        next
          case False
          with Some \<open>startsWith h ''Bearer ''\<close> g show ?thesis
            by (cases usr; cases err) (simp_all add: authentication_def Let_def)
        qed
      qed
    qed
    with h show ?thesis by simp
  qed
qed

subsection \<open>Validation\<close>

lemma validation_missing:
  "missingFields b \<noteq> [] \<Longrightarrow>
   validation w db cid tok loc u b =
   (Inr (errorResponse VALIDATION_MISSING_FIELD
           (''Missing required fields: '' @ join '', '' (missingFields b)) 400 cid None),
    logAudit w cid
      ((audit_failure u ''VALIDATION_FAILED'' VALIDATION_MISSING_FIELD
          (''Missing required fields: '' @ join '', '' (missingFields b)))
         \<lparr>ae_cultivera_order_number := order_number b\<rparr>))"
  by (cases "order_number b"; cases "customer_name b"; cases "customer_email b";
      cases "amount_cents b"; cases "request_timestamp b")
     (auto simp: validation_def missingFields_def truthy_def)

lemma missingFields_Nil:
  "missingFields b = [] \<Longrightarrow>
   \<exists>n name email a ts. b = \<lparr>order_number = Some n, customer_name = Some name,
         customer_email = Some email, amount_cents = Some a, request_timestamp = Some ts\<rparr> \<and>
       n \<noteq> [] \<and> name \<noteq> [] \<and> email \<noteq> [] \<and> ts \<noteq> []"
proof -
  assume m: "missingFields b = []"
  then obtain n name email a ts where f: "order_number b = Some n" "customer_name b = Some name"
      "customer_email b = Some email" "amount_cents b = Some a" "request_timestamp b = Some ts"
    by (cases "order_number b"; cases "customer_name b"; cases "customer_email b";
        cases "amount_cents b"; cases "request_timestamp b")
       (simp_all add: missingFields_def truthy_def)
  with m have "n \<noteq> [] \<and> name \<noteq> [] \<and> email \<noteq> [] \<and> ts \<noteq> []"
    by (simp add: missingFields_def truthy_def split: if_splits)
  with f show ?thesis by (cases b) simp
qed

lemma validation_order:
  "missingFields b = [] \<Longrightarrow> order_number b = Some n \<Longrightarrow> \<not> isValidOrderNumber n \<Longrightarrow>
   validation w db cid tok loc u b =
   (Inr (errorResponse VALIDATION_INVALID_ORDER ''Invalid order number format'' 400 cid None),
    logAudit w cid
      ((audit_failure u ''VALIDATION_FAILED'' VALIDATION_INVALID_ORDER ''Invalid order number format'')
         \<lparr>ae_cultivera_order_number := Some n\<rparr>))"
  by (drule missingFields_Nil) (auto simp: validation_def)

lemma validation_email:
  "missingFields b = [] \<Longrightarrow> order_number b = Some n \<Longrightarrow> isValidOrderNumber n \<Longrightarrow>
   customer_email b = Some e \<Longrightarrow> \<not> isValidEmail e \<Longrightarrow>
   validation w db cid tok loc u b =
   (Inr (errorResponse VALIDATION_INVALID_EMAIL ''Invalid customer email format'' 400 cid None),
    logAudit w cid
      ((audit_failure u ''VALIDATION_FAILED'' VALIDATION_INVALID_EMAIL ''Invalid email format'')
         \<lparr>ae_cultivera_order_number := Some n, ae_customer_email := Some e\<rparr>))"
  by (drule missingFields_Nil) (auto simp: validation_def)

lemma validation_amount:
  "missingFields b = [] \<Longrightarrow> order_number b = Some n \<Longrightarrow> isValidOrderNumber n \<Longrightarrow>
   customer_email b = Some e \<Longrightarrow> isValidEmail e \<Longrightarrow>
   amount_cents b = Some a \<Longrightarrow> \<not> amount_valid a \<Longrightarrow>
   validation w db cid tok loc u b =
   (Inr (errorResponse VALIDATION_INVALID_AMOUNT
           ''Amount appears invalid (must be positive and not exceed $50,000)'' 400 cid None),
    logAudit w cid
      ((audit_failure u ''VALIDATION_FAILED'' VALIDATION_INVALID_AMOUNT
          ''Amount must be a positive integer not exceeding 5000000 cents'')
         \<lparr>ae_cultivera_order_number := Some n, ae_amount_cents := Some a\<rparr>))"
  by (drule missingFields_Nil) (auto simp: validation_def amount_valid_iff)

lemma early_exit_facts:
  "status_of (Inr (errorResponse c msg st cid ra), t) = Some st"
  "error_code_of (Inr (errorResponse c msg st cid ra), t) = Some c"
  "square_calls (logAudit w cid d) = []"
  "ledger_writes (logAudit w cid d) = []"
  "length (audits (logAudit w cid d)) = 1"
  by (simp_all add: status_of_def error_code_of_def errorResponse_def jsonResponse_def
      logAudit_def)

lemma example_email_invalid: "\<not> isValidEmail ''jane@example''"
  by code_simp

subsection \<open>Every exit before the ledger is harmless\<close>

lemma replay_protection_stale_harmless:
  "\<not> timestamp_fresh w ts \<Longrightarrow>
   harmless (replay_protection w db cid tok loc u n name email a ts)"
  by (auto simp: timestamp_fresh_def replay_protection_def REPLAY_WINDOW_SECONDS_def Let_def
      split: option.splits)

lemma rate_limiting_over_harmless:
  "\<not> under_limits w db u \<Longrightarrow> harmless (rate_limiting w db cid tok loc u n name email a ts)"
  by (auto simp: under_limits_def rate_limiting_def USER_RATE_LIMIT_def GLOBAL_RATE_LIMIT_def
      Let_def)

lemma validation_harmless_or_valid:
  "harmless (validation w db cid tok loc u b) \<or>
   (\<exists>n name e a ts.
      b = \<lparr>order_number = Some n, customer_name = Some name, customer_email = Some e,
           amount_cents = Some a, request_timestamp = Some ts\<rparr> \<and>
      n \<noteq> [] \<and> name \<noteq> [] \<and> e \<noteq> [] \<and> ts \<noteq> [] \<and>
      isValidOrderNumber n \<and> isValidEmail e \<and> amount_valid a)"
proof (cases "missingFields b = []")
  case False
  then show ?thesis by (simp add: validation_missing)
next
  case True
  from missingFields_Nil [OF True] obtain n name e a ts where
    b: "b = \<lparr>order_number = Some n, customer_name = Some name,
         customer_email = Some e, amount_cents = Some a, request_timestamp = Some ts\<rparr>"
    and ne: "n \<noteq> []" "name \<noteq> []" "e \<noteq> []" "ts \<noteq> []"
    by blast
  have f: "order_number b = Some n" "customer_email b = Some e" "amount_cents b = Some a"
    by (simp_all add: b)
  consider "\<not> isValidOrderNumber n" | "isValidOrderNumber n" "\<not> isValidEmail e"
    | "isValidOrderNumber n" "isValidEmail e" "\<not> amount_valid a"
    | "isValidOrderNumber n" "isValidEmail e" "amount_valid a"
    by blast
  then show ?thesis
  proof cases
    case 1
    show ?thesis unfolding validation_order [OF True f(1) 1] by simp
  next
    case 2
    show ?thesis unfolding validation_email [OF True f(1) 2(1) f(2) 2(2)] by simp
  next
    case 3
    show ?thesis unfolding validation_amount [OF True f(1) 3(1) f(2) 3(2) f(3) 3(3)] by simp
  next
    case 4
    with b ne show ?thesis by blast
  qed
qed

lemma handler_harmless_or_reaches:
  "harmless (handler w db req) \<or>
   (\<exists>u n name email a ts. reaches_ledger w db req u n name email a ts)"
proof (cases "\<exists>u. authorized_caller w req u")
  case False
  with handler_harmless_or_authorized [of w db req] show ?thesis by simp
next
  case True
  then obtain u where u: "authorized_caller w req u" by blast
  let ?cid = "randomUUID w" and ?tok = "env_value (SQUARE_ACCESS_TOKEN w)"
    and ?loc = "env_value (SQUARE_LOCATION_ID w)"
  show ?thesis
  proof (cases "req_json req")
    case None
    then show ?thesis
      unfolding handler_authorized [OF u] by (simp add: parse_body_def)
  next
    case (Some b)
    then have h: "handler w db req = validation w db ?cid ?tok ?loc u b"
      unfolding handler_authorized [OF u] by (simp add: parse_body_def)
    from validation_harmless_or_valid [of w db ?cid ?tok ?loc u b]
    show ?thesis
    proof
      assume "harmless (validation w db ?cid ?tok ?loc u b)"
      with h show ?thesis by simp
    next
      assume "\<exists>n name e a ts.
        b = \<lparr>order_number = Some n, customer_name = Some name, customer_email = Some e,
             amount_cents = Some a, request_timestamp = Some ts\<rparr> \<and>
        n \<noteq> [] \<and> name \<noteq> [] \<and> e \<noteq> [] \<and> ts \<noteq> [] \<and>
        isValidOrderNumber n \<and> isValidEmail e \<and> amount_valid a"
      then obtain n name e a ts where fv: "fields_valid req n name e a ts"
        and av: "amount_valid a"
        using Some by (auto simp: fields_valid_def)
      show ?thesis
      proof (cases "timestamp_fresh w ts")
        case False
        then show ?thesis
          unfolding handler_amount_valid [OF u fv av]
          by (simp add: replay_protection_stale_harmless)
      next
        case fresh: True
        show ?thesis
        proof (cases "under_limits w db u")
          case False
          then show ?thesis
            unfolding handler_fresh [OF u fv av fresh]
            by (simp add: rate_limiting_over_harmless)
        next
          case True
          with u fv av fresh have "reaches_ledger w db req u n name e a ts"
            by (simp add: reaches_ledger_def)
          then show ?thesis by blast
        qed
      qed
    qed
  qed
qed

subsection \<open>Duplicates\<close>

lemma duplicate_check_completed:
  assumes "select_order db n = Some r" and "po_status r = Completed"
  shows "duplicate_check w db cid tok loc u n name email a ts =
         (Inr (errorResponse DUPLICATE_ORDER
                 (''Invoice already sent for order #'' @ n @ ''. View in Square Dashboard.'')
                 409 cid None),
          logAudit w cid
            ((audit_failure u ''DUPLICATE_BLOCKED'' DUPLICATE_ORDER
                (''Order already processed on ''
                 @ (case po_completed_at r of None \<Rightarrow> ''null'' | Some d \<Rightarrow> d)))
               \<lparr>ae_cultivera_order_number := Some n,
                 ae_square_invoice_id := po_square_invoice_id r\<rparr>))"
  using assms by (simp add: duplicate_check_def)

lemma duplicate_check_conflict:
  assumes "select_order db n = None" and "order_insert_result w = InsertError ''23505'' m"
  shows "duplicate_check w db cid tok loc u n name email a ts =
         (Inr (errorResponse DUPLICATE_ORDER
                 ''This order is already being processed. Please wait a moment.''
                 409 cid None),
          LedgerInsert
            \<lparr>ins_order_number = n, ins_user_id = user_id u, ins_status = Processing,
             ins_amount_cents = a, ins_customer_name = name, ins_customer_email = email,
             ins_idempotency_key = ''cultivera-'' @ n\<rparr> #
          logAudit w cid
            ((audit_failure u ''DUPLICATE_BLOCKED'' DUPLICATE_ORDER
                ''Order being processed by another request'')
               \<lparr>ae_cultivera_order_number := Some n\<rparr>))"
  using assms by (simp add: duplicate_check_def upsert_record_def)

lemma example_reaches:
  assumes "invoice_audit_log db = []"
  shows "reaches_ledger example_world db example_request example_user
           ''7600'' ''Jane Doe'' ''jane@example.org'' 3250 ''2024-01-01T00:00:00.000Z''"
proof -
  have w: "example_world\<lparr>date_now := 1704067260000\<rparr> = example_world"
    by (simp add: example_world_def)
  have "under_limits example_world db example_user"
    using assms
    by (simp add: under_limits_def get_user_rate_limit_count_def get_global_rate_limit_count_def)
  with example_authorized_request [of 1704067260000] example_fields_3250 example_amount_valid
    example_fresh
  show ?thesis
    by (simp add: reaches_ledger_def w)
qed

lemma reaches_ledger_saga_fields:
  "reaches_ledger (w\<lparr>order_insert_result := i\<rparr>) = reaches_ledger w"
  "reaches_ledger (w\<lparr>customers_search := cs\<rparr>) = reaches_ledger w"
  "reaches_ledger (w\<lparr>customers_create := cc\<rparr>) = reaches_ledger w"
  "reaches_ledger (w\<lparr>orders_create := oc\<rparr>) = reaches_ledger w"
  "reaches_ledger (w\<lparr>invoices_create := ic\<rparr>) = reaches_ledger w"
  "reaches_ledger (w\<lparr>invoices_get := ig\<rparr>) = reaches_ledger w"
  "reaches_ledger (w\<lparr>invoices_publish := ip\<rparr>) = reaches_ledger w"
  "reaches_ledger (w\<lparr>audit_insert_throws := ai\<rparr>) = reaches_ledger w"
  by (intro ext, simp add: reaches_ledger_def authorized_caller_def config_present_def
      timestamp_fresh_def under_limits_def ageSeconds_def cong: option.case_cong)+

lemma example_select_order:
  "select_order (example_database st steps) ''7600'' = Some (example_order st steps)"
  "select_order empty_database n = None"
  by (simp_all add: select_order_def example_database_def example_order_def empty_database_def)

lemma example_audit_log_empty:
  "invoice_audit_log (example_database st steps) = []"
  "invoice_audit_log empty_database = []"
  by (simp_all add: example_database_def empty_database_def)

subsection \<open>The request that reaches the saga\<close>

lemma handler_reaches_saga:
  assumes "reaches_ledger w db req u n name email a ts" and "record_id w db n = Some pid"
  shows "handler w db req =
         (fst (orchestration w (randomUUID w) (env_value (SQUARE_ACCESS_TOKEN w))
                 (env_value (SQUARE_LOCATION_ID w)) u n name email a ts pid),
          upsert_event w db u n name email a #
          snd (orchestration w (randomUUID w) (env_value (SQUARE_ACCESS_TOKEN w))
                 (env_value (SQUARE_LOCATION_ID w)) u n name email a ts pid))"
  unfolding handler_reaches_ledger [OF assms(1)]
  using assms(2)
  by (auto simp: record_id_def duplicate_check_def upsert_record_def upsert_event_def Let_def
      split: option.splits insert_result.splits prod.splits if_splits)

lemma step_customer_keys:
  "list_all (carries_key n) (square_calls (snd (snd (step_customer w n name email tok pid v))))"
  by (simp add: step_defs carries_key_def truthy_def split: step_splits)

lemma step_order_keys:
  "list_all (carries_key n) (square_calls (snd (snd (step_order w n a loc tok pid v))))"
  by (simp add: step_defs carries_key_def truthy_def split: step_splits)

lemma step_invoice_keys:
  "list_all (carries_key n) (square_calls (snd (snd (step_invoice w n loc tok pid v))))"
  by (simp add: step_defs carries_key_def truthy_def split: step_splits)

lemma step_publish_keys:
  "list_all (carries_key n) (square_calls (snd (snd (step_publish w n tok pid v))))"
  by (simp add: step_defs carries_key_def truthy_def split: step_splits)

lemma try_block_keys:
  "list_all (carries_key n) (square_calls (snd (snd (try_block w n name email a loc tok pid))))"
  by (rule try_block_trace [where P = "\<lambda>t. list_all (carries_key n) (square_calls t)"])
     (simp_all add: step_customer_keys step_order_keys step_invoice_keys step_publish_keys
        square_calls_append)

lemma orchestration_trace:
  "\<exists>post. snd (orchestration w cid tok loc u n name email a ts pid) =
          snd (snd (try_block w n name email a loc tok pid)) @ post \<and>
          square_calls post = []"
proof (cases "try_block w n name email a loc tok pid")
  case (fields x v t)
  then show ?thesis
    by (cases x) (simp_all add: orchestration_def Let_def logAudit_def)
qed

lemma orchestration_keys:
  "list_all (carries_key n)
     (square_calls (snd (orchestration w cid tok loc u n name email a ts pid)))"
proof -
  from orchestration_trace [of w cid tok loc u n name email a ts pid]
  obtain post where "snd (orchestration w cid tok loc u n name email a ts pid) =
          snd (snd (try_block w n name email a loc tok pid)) @ post" "square_calls post = []"
    by blast
  then show ?thesis by (simp add: square_calls_append try_block_keys)
qed

lemma try_block_starts_with_search:
  "\<exists>rest. snd (snd (try_block w n name email a loc tok pid)) =
     squareRequest ''/customers/search'' ''POST'' (SearchCustomers email) tok None # rest"
proof -
  have s: "\<exists>rest. snd (snd (step_customer w n name email tok pid initial_vars)) =
     squareRequest ''/customers/search'' ''POST'' (SearchCustomers email) tok None # rest"
    by (simp add: step_customer_def searchCustomerByEmail_def createCustomer_def push_def Let_def
        split: step_splits)
  have a: "\<And>r f c. \<exists>rest. snd (snd r) = c # rest \<Longrightarrow> \<exists>rest. snd (snd (and_then r f)) = c # rest"
    by (auto simp: and_then_def split: prod.splits option.splits)
  show ?thesis
    unfolding try_block_def by (intro a s)
qed

lemma reaches_ledger_audit_log:
  "invoice_audit_log db' = invoice_audit_log db \<Longrightarrow>
   reaches_ledger w db' req u n name email a ts = reaches_ledger w db req u n name email a ts"
  by (simp add: reaches_ledger_def under_limits_def get_user_rate_limit_count_def
      get_global_rate_limit_count_def)

lemma try_block_all_accepted:
  assumes "customers_search w = Returns cs" and "customers_create w = Returns c"
    and "orders_create w = Returns oid" and "invoices_create w = Returns (iid, num)"
    and "invoices_get w = Returns ver" and "invoices_publish w = Returns ()"
  shows "fst (try_block w n name email a loc tok pid) = None \<and>
         map sq_endpoint (square_calls (snd (snd (try_block w n name email a loc tok pid)))) =
           [''/customers/search''] @ (if cs = [] then [''/customers''] else []) @
           [''/orders'', ''/invoices'', ''/invoices/'' @ iid, ''/invoices/'' @ iid @ ''/publish'']"
  using assms
  by (cases cs)
     (simp_all add: try_block_def and_then_def initial_vars_def step_defs)

lemma orchestration_all_accepted:
  assumes "customers_search w = Returns cs" and "customers_create w = Returns c"
    and "orders_create w = Returns oid" and "invoices_create w = Returns (iid, num)"
    and "invoices_get w = Returns ver" and "invoices_publish w = Returns ()"
  shows "status_of (orchestration w cid tok loc u n name email a ts pid) = Some 200 \<and>
         map sq_endpoint (square_calls (snd (orchestration w cid tok loc u n name email a ts pid))) =
           [''/customers/search''] @ (if cs = [] then [''/customers''] else []) @
           [''/orders'', ''/invoices'', ''/invoices/'' @ iid, ''/invoices/'' @ iid @ ''/publish'']"
proof (cases "try_block w n name email a loc tok pid")
  case (fields x v t)
  with try_block_all_accepted [OF assms, of n name email a loc tok pid]
  show ?thesis
    by (simp add: orchestration_def status_of_def jsonResponse_def square_calls_append
        logAudit_def)
qed

lemma example_order_steps:
  "(example_order st steps)\<lparr>po_steps_completed := s\<rparr> = example_order st s"
  "po_status (example_order st steps) = st"
  "po_id (example_order st steps) = ''po-1''"
  "po_steps_completed (example_order st steps) = steps"
  by (simp_all add: example_order_def)

lemma example_world_accepts:
  "customers_search example_world = Returns []"
  "customers_create example_world = Returns \<lparr>customer_id = ''CUST1''\<rparr>"
  "orders_create example_world = Returns ''ORD1''"
  "invoices_create example_world = Returns (''INV1'', ''000042'')"
  "invoices_get example_world = Returns 0"
  "invoices_publish example_world = Returns ()"
  by (simp_all add: example_world_def)

subsection \<open>Failures of the saga\<close>

lemma step_customer_failure:
  "step_customer w n name email tok pid v = (x, v', t) \<Longrightarrow>
   ''invoice_published'' \<notin> set (stepsCompleted v) \<Longrightarrow>
   ''invoice_published'' \<notin> set (stepsCompleted v') \<and>
   (\<forall>e. x = Some e \<longrightarrow> e \<in> set (platform_failures w))"
  by (cases "customers_search w"; cases "customers_create w")
     (auto simp: step_defs platform_failures_def failure_of_def split: list.splits)

lemma step_order_failure:
  "step_order w n a loc tok pid v = (x, v', t) \<Longrightarrow>
   ''invoice_published'' \<notin> set (stepsCompleted v) \<Longrightarrow>
   ''invoice_published'' \<notin> set (stepsCompleted v') \<and>
   (\<forall>e. x = Some e \<longrightarrow> e \<in> set (platform_failures w))"
  by (cases "orders_create w")
     (auto simp: step_defs platform_failures_def failure_of_def)

lemma step_invoice_failure:
  "step_invoice w n loc tok pid v = (x, v', t) \<Longrightarrow>
   ''invoice_published'' \<notin> set (stepsCompleted v) \<Longrightarrow>
   ''invoice_published'' \<notin> set (stepsCompleted v') \<and>
   (\<forall>e. x = Some e \<longrightarrow> e \<in> set (platform_failures w))"
  by (cases "invoices_create w")
     (auto simp: step_defs platform_failures_def failure_of_def)

lemma step_publish_failure:
  "step_publish w n tok pid v = (Some e, v', t) \<Longrightarrow>
   v' = v \<and> e \<in> set (platform_failures w)"
  by (cases "invoices_get w"; cases "invoices_publish w")
     (auto simp: step_defs platform_failures_def failure_of_def)

lemma and_then_cases:
  assumes "and_then r f = (x, v', t')"
  obtains (stop) e where "r = (Some e, v', t')" "x = Some e"
  | (go) v t t2 where "r = (None, v, t)" "f v = (x, v', t2)" "t' = t @ t2"
proof (cases r)
  case (fields y v t)
  show ?thesis
  proof (cases y)
    case None
    obtain x2 v2 t2 where f: "f v = (x2, v2, t2)" by (cases "f v")
    with assms fields None have "x2 = x" "v2 = v'" "t' = t @ t2"
      by (simp_all add: and_then_None)
    with f fields None go show ?thesis by blast
  next
    case (Some e)
    with assms fields have "x = Some e" "v = v'" "t = t'"
      by (simp_all add: and_then_Some)
    with fields Some stop show ?thesis by blast
  qed
qed

lemma try_block_failure:
  assumes "try_block w n name email a loc tok pid = (Some e, v, t)"
  shows "''invoice_published'' \<notin> set (stepsCompleted v) \<and> e \<in> set (platform_failures w)"
proof -
  let ?c = "step_customer w n name email tok pid initial_vars"
  let ?o = "and_then ?c (step_order w n a loc tok pid)"
  let ?i = "and_then ?o (step_invoice w n loc tok pid)"
  have c: "''invoice_published'' \<notin> set (stepsCompleted v') \<and>
           (\<forall>e. x = Some e \<longrightarrow> e \<in> set (platform_failures w))"
    if "?c = (x, v', t')" for x v' t'
    using step_customer_failure [OF that] by (simp add: initial_vars_def)
  have o: "''invoice_published'' \<notin> set (stepsCompleted v') \<and>
           (\<forall>e. x = Some e \<longrightarrow> e \<in> set (platform_failures w))"
    if "?o = (x, v', t')" for x v' t'
    using that
  proof (cases rule: and_then_cases)
    case (stop e)
    with c show ?thesis by blast
  next
    case (go v1 t1 t2)
    with c [OF go(1)] step_order_failure [OF go(2)] show ?thesis by blast
  qed
  have i: "''invoice_published'' \<notin> set (stepsCompleted v') \<and>
           (\<forall>e. x = Some e \<longrightarrow> e \<in> set (platform_failures w))"
    if "?i = (x, v', t')" for x v' t'
    using that
  proof (cases rule: and_then_cases)
    case (stop e)
    with o show ?thesis by blast
  next
    case (go v1 t1 t2)
    with o [OF go(1)] step_invoice_failure [OF go(2)] show ?thesis by blast
  qed
  from assms have "and_then ?i (step_publish w n tok pid) = (Some e, v, t)"
    by (simp add: try_block_def)
  then show ?thesis
  proof (cases rule: and_then_cases)
    case (stop e')
    with i show ?thesis by blast
  next
    case (go v1 t1 t2)
    with i [OF go(1)] step_publish_failure [OF go(2)] show ?thesis by blast
  qed
qed

lemma try_block_failure_saga:
  "saga w n name email a pid = (Some e, v, t) \<Longrightarrow>
   ''invoice_published'' \<notin> set (stepsCompleted v) \<and> e \<in> set (platform_failures w)"
  unfolding saga_def by (rule try_block_failure)

lemma order_refused_reaches:
  "reaches_ledger order_refused empty_database example_request example_user
     ''7600'' ''Jane Doe'' ''jane@example.org'' 3250 ''2024-01-01T00:00:00.000Z''"
  unfolding order_refused_def reaches_ledger_saga_fields
  by (rule example_reaches) (rule example_audit_log_empty)

lemma order_refused_saga:
  "saga order_refused ''7600'' ''Jane Doe'' ''jane@example.org'' 3250 ''po-1'' =
   (Some ''Order creation failed: Location not found'',
    \<lparr>stepsCompleted = [''customer_search'', ''customer_found''],
     squareCustomerId = Some ''CUST1'', squareOrderId = None,
     squareInvoiceId = None, invoiceNumber = None\<rparr>,
    [squareRequest ''/customers/search'' ''POST'' (SearchCustomers ''jane@example.org'')
       ''square-token'' None,
     LedgerUpdate ''po-1''
       (no_patch\<lparr>set_square_customer_id := Some ''CUST1'',
          set_steps_completed := Some [''customer_search'', ''customer_found'']\<rparr>),
     squareRequest ''/orders'' ''POST''
       (CreateOrder ''ord-7600'' ''LOC1'' ''CUST1'' ''7600'' ''Wholesale Order #7600'' 3250)
       ''square-token'' (Some ''ord-7600'')])"
  by (simp add: saga_def try_block_def and_then_def initial_vars_def step_defs first_detail_def
      order_refused_def example_world_def env_value_def)

lemma order_refused_database:
  "map (\<lambda>r. (po_status r, po_steps_completed r, po_error_message r))
     (processed_orders (database_after order_refused empty_database example_request)) =
   [(Failed, [''customer_search'', ''customer_found''],
     Some ''Order creation failed: Location not found'')]"
  by code_simp

subsection \<open>Writes of steps completed\<close>

lemma step_customer_appends: "appends_only pid v (step_customer w n name email tok pid v)"
  by (cases "customers_search w"; cases "customers_create w")
     (auto simp: appends_only_def step_defs no_patch_def split: list.splits)

lemma step_order_appends: "appends_only pid v (step_order w n a loc tok pid v)"
  by (cases "orders_create w") (auto simp: appends_only_def step_defs no_patch_def)

lemma step_invoice_appends: "appends_only pid v (step_invoice w n loc tok pid v)"
  by (cases "invoices_create w") (auto simp: appends_only_def step_defs no_patch_def)

lemma step_publish_appends: "appends_only pid v (step_publish w n tok pid v)"
  by (cases "invoices_get w"; cases "invoices_publish w")
     (auto simp: appends_only_def step_defs no_patch_def)

lemma and_then_appends:
  assumes r: "appends_only pid v0 r" and f: "\<And>v. appends_only pid v (f v)"
  shows "appends_only pid v0 (and_then r f)"
proof (cases r)
  case (fields x v t)
  show ?thesis
  proof (cases x)
    case (Some e)
    with fields r show ?thesis by (simp add: and_then_Some)
  next
    case None
    obtain x2 v2 t2 where fv: "f v = (x2, v2, t2)" by (cases "f v")
    from r fields have r1: "prefix (stepsCompleted v0) (stepsCompleted v)"
      and r2: "sorted_wrt extends (steps_writes t)"
      and r3: "\<And>p. p \<in> set (steps_writes t) \<Longrightarrow>
                 fst p = pid \<and> prefix (stepsCompleted v0) (snd p) \<and> prefix (snd p) (stepsCompleted v)"
      by (auto simp: appends_only_def list_all_iff)
    from f [of v] fv have f1: "prefix (stepsCompleted v) (stepsCompleted v2)"
      and f2: "sorted_wrt extends (steps_writes t2)"
      and f3: "\<And>p. p \<in> set (steps_writes t2) \<Longrightarrow>
                 fst p = pid \<and> prefix (stepsCompleted v) (snd p) \<and> prefix (snd p) (stepsCompleted v2)"
      by (auto simp: appends_only_def list_all_iff)
    have a: "and_then r f = (x2, v2, t @ t2)"
      using fields None fv by (simp add: and_then_None)
    have 1: "prefix (stepsCompleted v0) (stepsCompleted v2)"
      using r1 f1 by (rule prefix_order.trans)
    have 2: "sorted_wrt extends (steps_writes (t @ t2))"
      unfolding steps_writes_append sorted_wrt_append
    proof (intro conjI ballI)
      fix p q assume "p \<in> set (steps_writes t)" "q \<in> set (steps_writes t2)"
      with r3 [of p] f3 [of q] show "extends p q"
        by (auto simp: extends_def intro: prefix_order.trans)
    qed (rule r2, rule f2)
    have 3: "fst p = pid \<and> prefix (stepsCompleted v0) (snd p) \<and> prefix (snd p) (stepsCompleted v2)"
      if "p \<in> set (steps_writes (t @ t2))" for p
      using that r3 [of p] f3 [of p] r1 f1
      by (auto simp: steps_writes_append intro: prefix_order.trans)
    from 1 2 3 show ?thesis
      unfolding a by (simp add: appends_only_def list_all_iff)
  qed
qed

lemma try_block_appends:
  "appends_only pid initial_vars (try_block w n name email a loc tok pid)"
  unfolding try_block_def
  by (intro and_then_appends step_customer_appends step_order_appends step_invoice_appends
      step_publish_appends)

lemma orchestration_writes_sorted:
  "sorted_wrt extends (steps_writes (snd (orchestration w cid tok loc u n name email a ts pid)))"
proof (cases "try_block w n name email a loc tok pid")
  case (fields x v t)
  with try_block_appends [of pid w n name email a loc tok]
  have s: "sorted_wrt extends (steps_writes t)"
    and l: "\<And>p. p \<in> set (steps_writes t) \<Longrightarrow> fst p = pid \<and> prefix (snd p) (stepsCompleted v)"
    by (auto simp: appends_only_def list_all_iff)
  show ?thesis
  proof (cases x)
    case None
    with fields s show ?thesis
      by (simp add: orchestration_def steps_writes_append logAudit_steps_writes)
  next
    case (Some e)
    with fields s l show ?thesis
      by (auto simp: orchestration_def Let_def steps_writes_append logAudit_steps_writes
          sorted_wrt_append extends_def no_patch_def)
  qed
qed

lemma no_ledger_writes_no_steps: "ledger_writes t = [] \<Longrightarrow> steps_writes t = []"
  by (induction t rule: ledger_writes.induct) simp_all

lemma duplicate_check_writes_sorted:
  "sorted_wrt extends
     (steps_writes (snd (duplicate_check w db cid tok loc u n name email a ts)))"
proof (cases "record_id w db n")
  case (Some pid)
  obtain ro to where o: "orchestration w cid tok loc u n name email a ts pid = (ro, to)"
    by (cases "orchestration w cid tok loc u n name email a ts pid")
  with orchestration_writes_sorted [of w cid tok loc u n name email a ts pid]
  have s: "sorted_wrt extends (steps_writes to)" by simp
  from Some o s show ?thesis
    by (auto simp: record_id_def duplicate_check_def upsert_record_def Let_def no_patch_def
        split: option.splits insert_result.splits if_splits)
next
  case None
  then show ?thesis
    by (auto simp: record_id_def duplicate_check_def upsert_record_def Let_def
        logAudit_steps_writes
        split: option.splits insert_result.splits if_splits)
qed

subsection \<open>The audit entry\<close>

lemma effects_logAudit: "effects (logAudit w cid d) = [AuditInsert (d\<lparr>ae_correlation_id := cid\<rparr>)]"
  by (simp add: logAudit_def)

lemma audited_once_logAudit [simp]: "audited_once (r, logAudit w cid d)"
  by (simp add: audited_once_def effects_logAudit logAudit_audits split: sum.splits)

lemma audited_once_append:
  "audits pre = [] \<Longrightarrow> audited_once (r, pre @ logAudit w cid d)"
  by (simp add: audited_once_def effects_append effects_logAudit audits_append logAudit_audits
      split: sum.splits)

lemma effects_Nil_audits: "effects t = [] \<Longrightarrow> audits t = []"
  by (induction t rule: effects.induct) simp_all

lemma audited_once_ledger:
  "audited_once (r, t) \<Longrightarrow> audited_once (r, LedgerUpdate i p # t)"
  "audited_once (r, t) \<Longrightarrow> audited_once (r, LedgerInsert ins # t)"
  by (auto simp: audited_once_def dest: effects_Nil_audits split: sum.splits event.splits)

lemma orchestration_audited:
  "audited_once (orchestration w cid tok loc u n name email a ts pid)"
proof (cases "try_block w n name email a loc tok pid")
  case (fields x v t)
  with try_block_quiet [of w n name email a loc tok pid] have q: "audits t = []" by simp
  show ?thesis
  proof (cases x)
    case None
    with fields q show ?thesis
      by (simp add: orchestration_def audited_once_append)
  next
    case (Some e)
    have "audits (t @ [LedgerUpdate pid p]) = []" for p
      using q by (simp add: audits_append)
    from audited_once_append [OF this] fields Some show ?thesis
      by (simp add: orchestration_def Let_def)
  qed
qed

lemma duplicate_check_audited:
  "audited_once (duplicate_check w db cid tok loc u n name email a ts)"
proof -
  have o: "audited_once (r, t)"
    if "orchestration w cid tok loc u n name email a ts pid = (r, t)" for pid r t
    using orchestration_audited [of w cid tok loc u n name email a ts pid] that by simp
  have i: "audited_once (Inl m, t)" for m t
    by (simp add: audited_once_def)
  show ?thesis
    by (auto simp: duplicate_check_def upsert_record_def Let_def o i
        intro!: audited_once_ledger
        split: option.splits insert_result.splits prod.splits)
qed

lemma rate_limiting_audited:
  "audited_once (rate_limiting w db cid tok loc u n name email a ts)"
  by (simp add: rate_limiting_def Let_def duplicate_check_audited)

lemma replay_protection_audited:
  "audited_once (replay_protection w db cid tok loc u n name email a ts)"
  by (simp add: replay_protection_def Let_def rate_limiting_audited)

lemma validation_audited: "audited_once (validation w db cid tok loc u b)"
proof -
  from validation_harmless_or_valid [of w db cid tok loc u b] show ?thesis
  proof
    assume "\<exists>n name e a ts.
      b = \<lparr>order_number = Some n, customer_name = Some name, customer_email = Some e,
           amount_cents = Some a, request_timestamp = Some ts\<rparr> \<and>
      n \<noteq> [] \<and> name \<noteq> [] \<and> e \<noteq> [] \<and> ts \<noteq> [] \<and>
      isValidOrderNumber n \<and> isValidEmail e \<and> amount_valid a"
    then show ?thesis
      by (auto simp: validation_def amount_valid_iff replay_protection_audited)
  next
    assume h: "harmless (validation w db cid tok loc u b)"
    show ?thesis
    proof (cases "missingFields b = []")
      case False
      then show ?thesis by (simp add: validation_missing)
    next
      case True
      from missingFields_Nil [OF True] obtain n name e a ts where
        b: "b = \<lparr>order_number = Some n, customer_name = Some name,
           customer_email = Some e, amount_cents = Some a, request_timestamp = Some ts\<rparr>"
        and ne: "n \<noteq> []" "name \<noteq> []" "e \<noteq> []" "ts \<noteq> []"
        by blast
      show ?thesis
        using ne unfolding b
        by (simp add: validation_def replay_protection_audited)
    qed
  qed
qed

lemma authentication_audited: "audited_once (authentication w db cid tok loc req)"
proof (cases "req_authorization req")
  case None
  then show ?thesis by (simp add: authentication_def)
next
  case (Some h)
  have p: "audited_once (authorization w db cid tok loc u req)" for u
    by (simp add: authorization_def parse_body_def validation_audited split: option.splits)
  obtain usr err where g: "auth_getUser w (drop 7 h) = (usr, err)"
    by (cases "auth_getUser w (drop 7 h)")
  show ?thesis
    using Some g p
    by (cases usr; cases err) (simp_all add: authentication_def Let_def)
qed

lemma handler_audited:
  assumes "req_method req = ''POST''" and "config_present w"
  shows "audited_once (handler w db req)"
  using assms by (simp add: handler_def config_present_def authentication_audited)

subsection \<open>A failing audit write\<close>

lemma observable_logAudit:
  "observable (r, logAudit (w\<lparr>audit_insert_throws := x\<rparr>) cid d) = observable (r, logAudit w cid d)"
  by (simp add: observable_def effects_logAudit)

lemma client_audit_flag:
  "searchCustomerByEmail (w\<lparr>audit_insert_throws := x\<rparr>) = searchCustomerByEmail w"
  "createCustomer (w\<lparr>audit_insert_throws := x\<rparr>) = createCustomer w"
  "createOrder (w\<lparr>audit_insert_throws := x\<rparr>) = createOrder w"
  "createInvoice (w\<lparr>audit_insert_throws := x\<rparr>) = createInvoice w"
  "publishInvoice (w\<lparr>audit_insert_throws := x\<rparr>) = publishInvoice w"
  by (intro ext,
      simp add: searchCustomerByEmail_def createCustomer_def createOrder_def createInvoice_def
        publishInvoice_def Let_def cong: square_response.case_cong)+

lemma step_audit_flag:
  "step_customer (w\<lparr>audit_insert_throws := x\<rparr>) = step_customer w"
  "step_order (w\<lparr>audit_insert_throws := x\<rparr>) = step_order w"
  "step_invoice (w\<lparr>audit_insert_throws := x\<rparr>) = step_invoice w"
  "step_publish (w\<lparr>audit_insert_throws := x\<rparr>) = step_publish w"
  by (intro ext,
      simp add: step_customer_def step_order_def step_invoice_def step_publish_def
        client_audit_flag Let_def
        cong: prod.case_cong sum.case_cong option.case_cong)+

lemma try_block_audit_flag:
  "try_block (w\<lparr>audit_insert_throws := x\<rparr>) n name email a loc tok pid =
   try_block w n name email a loc tok pid"
  by (simp add: try_block_def step_audit_flag)

lemma orchestration_audit_flag:
  "observable (orchestration (w\<lparr>audit_insert_throws := x\<rparr>) cid tok loc u n name email a ts pid) =
   observable (orchestration w cid tok loc u n name email a ts pid)"
proof (cases "try_block w n name email a loc tok pid")
  case (fields y v t)
  then show ?thesis
    by (cases y)
       (simp_all add: orchestration_def try_block_audit_flag observable_def Let_def
          effects_append effects_logAudit)
qed

lemma duplicate_check_audit_flag:
  "observable (duplicate_check (w\<lparr>audit_insert_throws := x\<rparr>) db cid tok loc u n name email a ts) =
   observable (duplicate_check w db cid tok loc u n name email a ts)"
proof -
  have o: "r' = r \<and> effects t' = effects t"
    if "orchestration (w\<lparr>audit_insert_throws := x\<rparr>) cid tok loc u n name email a ts pid = (r', t')"
       "orchestration w cid tok loc u n name email a ts pid = (r, t)" for pid r t r' t'
    using orchestration_audit_flag [where w = w and x = x and pid = pid and cid = cid
        and tok = tok and loc = loc and u = u and n = n and name = name and email = email
        and a = a and ts = ts] that
    by (simp add: observable_def)
  show ?thesis
    by (auto simp: duplicate_check_def upsert_record_def Let_def observable_def effects_logAudit
        dest: o split: option.splits insert_result.splits prod.splits)
qed

lemma rate_limiting_audit_flag:
  "observable (rate_limiting (w\<lparr>audit_insert_throws := x\<rparr>) db cid tok loc u n name email a ts) =
   observable (rate_limiting w db cid tok loc u n name email a ts)"
  by (simp add: rate_limiting_def Let_def duplicate_check_audit_flag observable_logAudit)

lemma replay_protection_audit_flag:
  "observable (replay_protection (w\<lparr>audit_insert_throws := x\<rparr>) db cid tok loc u n name email a ts) =
   observable (replay_protection w db cid tok loc u n name email a ts)"
  by (simp add: replay_protection_def Let_def rate_limiting_audit_flag observable_logAudit
      ageSeconds_def cong: option.case_cong)

lemma validation_audit_flag:
  "observable (validation (w\<lparr>audit_insert_throws := x\<rparr>) db cid tok loc u b) =
   observable (validation w db cid tok loc u b)"
  by (cases "order_number b"; cases "customer_name b"; cases "customer_email b";
      cases "amount_cents b"; cases "request_timestamp b")
     (simp_all add: validation_def replay_protection_audit_flag observable_logAudit)

lemma authentication_audit_flag:
  "observable (authentication (w\<lparr>audit_insert_throws := x\<rparr>) db cid tok loc req) =
   observable (authentication w db cid tok loc req)"
proof (cases "req_authorization req")
  case None
  then show ?thesis by (simp add: authentication_def observable_logAudit)
next
  case (Some h)
  have p: "observable (authorization (w\<lparr>audit_insert_throws := x\<rparr>) db cid tok loc u req) =
           observable (authorization w db cid tok loc u req)" for u
    by (simp add: authorization_def parse_body_def validation_audit_flag observable_logAudit
        split: option.splits)
  obtain usr err where g: "auth_getUser w (drop 7 h) = (usr, err)"
    by (cases "auth_getUser w (drop 7 h)")
  show ?thesis
    using Some g p
    by (cases usr; cases err) (simp_all add: authentication_def Let_def observable_logAudit)
qed

lemma handler_audit_flag:
  "observable (handler (w\<lparr>audit_insert_throws := x\<rparr>) db req) = observable (handler w db req)"
proof -
  have "fst (authentication (w\<lparr>audit_insert_throws := x\<rparr>) db cid tok loc req) =
        fst (authentication w db cid tok loc req) \<and>
        effects (snd (authentication (w\<lparr>audit_insert_throws := x\<rparr>) db cid tok loc req)) =
        effects (snd (authentication w db cid tok loc req))" for cid tok loc
    using authentication_audit_flag [where w = w and x = x and db = db and cid = cid
        and tok = tok and loc = loc and req = req]
    by (simp add: observable_def)
  then show ?thesis
    by (simp add: handler_def Let_def observable_def)
qed

section \<open>Claims\<close>

text \<open>
  C10. When an Authorization header is present (and starts with \<open>'Bearer '\<close>) but token
  verification fails (no user, or an error), the handler returns HTTP 401 with code
  \<open>AUTH_EXPIRED\<close> if the provider's error message contains \<open>expired\<close> and
  \<open>AUTH_INVALID\<close> otherwise; the single audit entry written has result
  \<open>AUTH_MISSING\<close>, and the distinguishing code is in its \<open>error_code\<close> field only.
\<close>

theorem token_verification_failure:
  assumes "req_method req = ''POST''" and "config_present w"
    and "req_authorization req = Some h" and "startsWith h ''Bearer ''"
    and "auth_getUser w (drop 7 h) = (usr, err)" and "usr = None \<or> err \<noteq> None"
  shows "status_of (handler w db req) = Some 401 \<and>
         error_code_of (handler w db req) =
           Some (if (case err of None \<Rightarrow> False | Some m \<Rightarrow> includes_str m ''expired'')
                 then AUTH_EXPIRED else AUTH_INVALID) \<and>
         map ae_result (audits (snd (handler w db req))) = [''AUTH_MISSING''] \<and>
         map ae_error_code (audits (snd (handler w db req))) = [error_code_of (handler w db req)]"
proof -
  have "handler w db req =
        authentication w db (randomUUID w) (env_value (SQUARE_ACCESS_TOKEN w))
          (env_value (SQUARE_LOCATION_ID w)) req"
    using assms(1,2) by (simp add: handler_def config_present_def)
  moreover have "(usr = None) \<or> (\<exists>u m. usr = Some u \<and> err = Some m)"
    using assms(6) by (cases usr; cases err) auto
  ultimately show ?thesis
    using assms(3,4,5)
    by (auto simp: authentication_def status_of_def error_code_of_def errorResponse_def
        jsonResponse_def logAudit_def audit_data_def Let_def split: option.splits)
qed

theorem token_verification_failure_witness:
  "req_method example_request = ''POST'' \<and>
   config_present (example_world\<lparr>auth_getUser := \<lambda>j. (None, Some ''JWT expired'')\<rparr>) \<and>
   req_authorization example_request = Some ''Bearer jwt-u1'' \<and>
   startsWith ''Bearer jwt-u1'' ''Bearer '' \<and>
   status_of (handler (example_world\<lparr>auth_getUser := \<lambda>j. (None, Some ''JWT expired'')\<rparr>)
                empty_database example_request) = Some 401 \<and>
   error_code_of (handler (example_world\<lparr>auth_getUser := \<lambda>j. (None, Some ''JWT expired'')\<rparr>)
                empty_database example_request) = Some AUTH_EXPIRED \<and>
   map ae_result (audits (snd (handler (example_world\<lparr>auth_getUser := \<lambda>j. (None, Some ''JWT expired'')\<rparr>)
                empty_database example_request))) = [''AUTH_MISSING'']"
proof -
  let ?w = "example_world\<lparr>auth_getUser := \<lambda>j. (None, Some ''JWT expired'')\<rparr>"
  have h1: "req_method example_request = ''POST''"
    by (simp add: example_request_def)
  have h2: "config_present ?w"
    by (simp add: config_present_def example_world_def truthy_def)
  have h3: "req_authorization example_request = Some ''Bearer jwt-u1''"
    by (simp add: example_request_def)
  have h4: "startsWith ''Bearer jwt-u1'' ''Bearer ''"
    by simp
  have h5: "auth_getUser ?w (drop 7 ''Bearer jwt-u1'') = (None, Some ''JWT expired'')"
    by simp
  have h6: "(None :: user option) = None \<or> Some ''JWT expired'' \<noteq> None"
    by simp
  from token_verification_failure [OF h1 h2 h3 h4 h5 h6, of empty_database] h1 h2 h3 h4
  show ?thesis by simp
qed

text \<open>
  C6. For a request that reaches the amount rule (authorized caller, all fields present,
  order number and email well-formed), the handler rejects with
  \<open>VALIDATION_INVALID_AMOUNT\<close> exactly when \<open>amount_cents\<close> is not an integer with
  \<open>0 < amount_cents \<le> 5,000,000\<close>, and then with HTTP 400. The ceiling itself is
  accepted; ceiling + 1, zero, negative and non-integer amounts are rejected.
\<close>

theorem amount_validation:
  assumes "authorized_caller w req u" and "fields_valid req n name email a ts"
  shows "((error_code_of (handler w db req) = Some VALIDATION_INVALID_AMOUNT) =
            (\<not> (a \<in> \<int> \<and> 0 < a \<and> a \<le> 5000000))) \<and>
         (error_code_of (handler w db req) = Some VALIDATION_INVALID_AMOUNT \<longrightarrow>
            status_of (handler w db req) = Some 400) \<and>
         (a = 5000000 \<longrightarrow> error_code_of (handler w db req) \<noteq> Some VALIDATION_INVALID_AMOUNT) \<and>
         (a = 5000000 + 1 \<or> a = 0 \<or> a < 0 \<or> a \<notin> \<int> \<longrightarrow>
            error_code_of (handler w db req) = Some VALIDATION_INVALID_AMOUNT \<and>
            status_of (handler w db req) = Some 400)"
proof -
  have iff: "(error_code_of (handler w db req) = Some VALIDATION_INVALID_AMOUNT) =
             (\<not> (a \<in> \<int> \<and> 0 < a \<and> a \<le> 5000000))"
    using amount_accept_iff [OF assms] by (simp add: amount_valid_def Number_isInteger_iff)
  have st: "error_code_of (handler w db req) = Some VALIDATION_INVALID_AMOUNT \<Longrightarrow>
            status_of (handler w db req) = Some 400"
    using amount_accept_iff [OF assms] handler_amount_invalid [OF assms] by simp
  show ?thesis
    using st unfolding iff by auto
qed

theorem amount_validation_witness:
  "authorized_caller (example_world\<lparr>date_now := 1704067260000\<rparr>)
     (example_request\<lparr>req_json := Some (example_body\<lparr>amount_cents := Some (5000001)\<rparr>)\<rparr>)
     example_user \<and>
   fields_valid (example_request\<lparr>req_json := Some (example_body\<lparr>amount_cents := Some (5000001)\<rparr>)\<rparr>)
     ''7600'' ''Jane Doe'' ''jane@example.org'' 5000001 ''2024-01-01T00:00:00.000Z'' \<and>
   error_code_of
     (handler (example_world\<lparr>date_now := 1704067260000\<rparr>) empty_database
        (example_request\<lparr>req_json := Some (example_body\<lparr>amount_cents := Some (5000000)\<rparr>)\<rparr>))
     \<noteq> Some VALIDATION_INVALID_AMOUNT \<and>
   error_code_of
     (handler (example_world\<lparr>date_now := 1704067260000\<rparr>) empty_database
        (example_request\<lparr>req_json := Some (example_body\<lparr>amount_cents := Some (5000001)\<rparr>)\<rparr>))
     = Some VALIDATION_INVALID_AMOUNT \<and>
   status_of
     (handler (example_world\<lparr>date_now := 1704067260000\<rparr>) empty_database
        (example_request\<lparr>req_json := Some (example_body\<lparr>amount_cents := Some (5000001)\<rparr>)\<rparr>))
     = Some 400 \<and>
   error_code_of
     (handler (example_world\<lparr>date_now := 1704067260000\<rparr>) empty_database
        (example_request\<lparr>req_json := Some (example_body\<lparr>amount_cents := Some (0)\<rparr>)\<rparr>))
     = Some VALIDATION_INVALID_AMOUNT \<and>
   error_code_of
     (handler (example_world\<lparr>date_now := 1704067260000\<rparr>) empty_database
        (example_request\<lparr>req_json := Some (example_body\<lparr>amount_cents := Some (- 5)\<rparr>)\<rparr>))
     = Some VALIDATION_INVALID_AMOUNT \<and>
   error_code_of
     (handler (example_world\<lparr>date_now := 1704067260000\<rparr>) empty_database
        (example_request\<lparr>req_json := Some (example_body\<lparr>amount_cents := Some (6501 / 2)\<rparr>)\<rparr>))
     = Some VALIDATION_INVALID_AMOUNT"
proof -
  have "\<not> Number_isInteger (6501 / 2)"
    by code_simp
  then have n: "(6501 / 2 :: rat) \<notin> \<int>"
    by (simp add: Number_isInteger_iff)
  from amount_validation [OF example_authorized [of 1704067260000] example_fields [of 5000000],
      of empty_database]
    amount_validation [OF example_authorized [of 1704067260000] example_fields [of 5000001],
      of empty_database]
    amount_validation [OF example_authorized [of 1704067260000] example_fields [of 0],
      of empty_database]
    amount_validation [OF example_authorized [of 1704067260000] example_fields [of "- 5"],
      of empty_database]
    amount_validation [OF example_authorized [of 1704067260000] example_fields [of "6501 / 2"],
      of empty_database] n
    example_authorized [of 1704067260000] example_fields [of 5000001]
  show ?thesis by simp
qed

text \<open>
  C5. For a request that reaches the replay guard, the handler rejects with
  \<open>REPLAY_REJECTED\<close> exactly when the timestamp does not parse or the age
  \<open>now - request_timestamp\<close> is outside \<open>-30s \<le> age \<le> 120s\<close>, and then with HTTP
  400: an age of 120.0s or -30.0s is accepted, 120.1s or -30.1s is rejected.
\<close>

theorem replay_guard:
  assumes "authorized_caller w req u" and "fields_valid req n name email a ts"
    and "amount_valid a"
  shows "((error_code_of (handler w db req) = Some REPLAY_REJECTED) =
            (\<not> (\<exists>t. date_parse w ts = Some t \<and>
                     - 30 \<le> ageSeconds w t \<and> ageSeconds w t \<le> 120))) \<and>
         (error_code_of (handler w db req) = Some REPLAY_REJECTED \<longrightarrow>
            status_of (handler w db req) = Some 400) \<and>
         (date_parse w ts = None \<longrightarrow>
            error_code_of (handler w db req) = Some REPLAY_REJECTED) \<and>
         (\<forall>t. date_parse w ts = Some t \<and> (ageSeconds w t = 120 \<or> ageSeconds w t = - 30) \<longrightarrow>
            error_code_of (handler w db req) \<noteq> Some REPLAY_REJECTED) \<and>
         (\<forall>t. date_parse w ts = Some t \<and>
              (ageSeconds w t = 1201 / 10 \<or> ageSeconds w t = - (301 / 10)) \<longrightarrow>
            error_code_of (handler w db req) = Some REPLAY_REJECTED)"
proof -
  have iff: "(error_code_of (handler w db req) = Some REPLAY_REJECTED) =
             (\<not> (\<exists>t. date_parse w ts = Some t \<and>
                      - 30 \<le> ageSeconds w t \<and> ageSeconds w t \<le> 120))"
    using replay_reject_iff [OF assms] by (simp add: timestamp_fresh_iff)
  have st: "error_code_of (handler w db req) = Some REPLAY_REJECTED \<Longrightarrow>
            status_of (handler w db req) = Some 400"
    using replay_reject_iff [OF assms] handler_stale [OF assms] by simp
  show ?thesis
    using st unfolding iff by auto
qed

theorem replay_guard_witness:
  "authorized_caller (example_world\<lparr>date_now := 1704067200000 + 120000\<rparr>) example_request
     example_user \<and>
   fields_valid example_request
     ''7600'' ''Jane Doe'' ''jane@example.org'' 3250 ''2024-01-01T00:00:00.000Z'' \<and>
   amount_valid 3250 \<and>
   error_code_of (handler (example_world\<lparr>date_now := 1704067200000 + 120000\<rparr>)
                    empty_database example_request) \<noteq> Some REPLAY_REJECTED \<and>
   error_code_of (handler (example_world\<lparr>date_now := 1704067200000 + 120100\<rparr>)
                    empty_database example_request) = Some REPLAY_REJECTED \<and>
   status_of (handler (example_world\<lparr>date_now := 1704067200000 + 120100\<rparr>)
                    empty_database example_request) = Some 400 \<and>
   error_code_of (handler (example_world\<lparr>date_now := 1704067200000 - 30000\<rparr>)
                    empty_database example_request) \<noteq> Some REPLAY_REJECTED \<and>
   error_code_of (handler (example_world\<lparr>date_now := 1704067200000 - 30100\<rparr>)
                    empty_database example_request) = Some REPLAY_REJECTED"
  using
    replay_guard [OF example_authorized_request [of "1704067200000 + 120000"]
      example_fields_3250 example_amount_valid, of empty_database]
    replay_guard [OF example_authorized_request [of "1704067200000 + 120100"]
      example_fields_3250 example_amount_valid, of empty_database]
    replay_guard [OF example_authorized_request [of "1704067200000 - 30000"]
      example_fields_3250 example_amount_valid, of empty_database]
    replay_guard [OF example_authorized_request [of "1704067200000 - 30100"]
      example_fields_3250 example_amount_valid, of empty_database]
    example_authorized_request [of "1704067200000 + 120000"]
    example_fields_3250 example_amount_valid
  by (simp add: example_world_def ageSeconds_def)

text \<open>
  C7. After the earlier gates pass: if the caller's trailing-hour count of audit entries
  with result SUCCESS or FAILURE is at least 10, the request is rejected with
  \<open>RATE_LIMITED_USER\<close> and \<open>retry_after = 3600\<close>, whatever the global count;
  otherwise, if the global count is at least 50, with \<open>RATE_LIMITED_GLOBAL\<close> and
  \<open>retry_after = 300\<close>; both with HTTP 429. Below both limits neither code is returned.
\<close>

theorem rate_limits:
  assumes "authorized_caller w req u" and "fields_valid req n name email a ts"
    and "amount_valid a" and "timestamp_fresh w ts"
  shows "(10 \<le> get_user_rate_limit_count db (sql_now w) (user_id u) \<longrightarrow>
            status_of (handler w db req) = Some 429 \<and>
            error_code_of (handler w db req) = Some RATE_LIMITED_USER \<and>
            retry_after_of (handler w db req) = Some 3600) \<and>
         (get_user_rate_limit_count db (sql_now w) (user_id u) < 10 \<and>
          50 \<le> get_global_rate_limit_count db (sql_now w) \<longrightarrow>
            status_of (handler w db req) = Some 429 \<and>
            error_code_of (handler w db req) = Some RATE_LIMITED_GLOBAL \<and>
            retry_after_of (handler w db req) = Some 300) \<and>
         (get_user_rate_limit_count db (sql_now w) (user_id u) < 10 \<and>
          get_global_rate_limit_count db (sql_now w) < 50 \<longrightarrow>
            error_code_of (handler w db req) \<noteq> Some RATE_LIMITED_USER \<and>
            error_code_of (handler w db req) \<noteq> Some RATE_LIMITED_GLOBAL)"
proof -
  let ?r = "rate_limiting w db (randomUUID w) (env_value (SQUARE_ACCESS_TOKEN w))
              (env_value (SQUARE_LOCATION_ID w)) u n name email a ts"
  let ?d = "duplicate_check w db (randomUUID w) (env_value (SQUARE_ACCESS_TOKEN w))
              (env_value (SQUARE_LOCATION_ID w)) u n name email a ts"
  have 1: "10 \<le> get_user_rate_limit_count db (sql_now w) (user_id u) \<Longrightarrow>
           status_of ?r = Some 429 \<and> error_code_of ?r = Some RATE_LIMITED_USER \<and>
           retry_after_of ?r = Some 3600"
    by (simp add: rate_limiting_def USER_RATE_LIMIT_def Let_def status_of_def error_code_of_def
        retry_after_of_def errorResponse_def jsonResponse_def)
  have 2: "get_user_rate_limit_count db (sql_now w) (user_id u) < 10 \<Longrightarrow>
           50 \<le> get_global_rate_limit_count db (sql_now w) \<Longrightarrow>
           status_of ?r = Some 429 \<and> error_code_of ?r = Some RATE_LIMITED_GLOBAL \<and>
           retry_after_of ?r = Some 300"
    by (simp add: rate_limiting_def USER_RATE_LIMIT_def GLOBAL_RATE_LIMIT_def Let_def
        status_of_def error_code_of_def retry_after_of_def errorResponse_def jsonResponse_def)
  have 3: "get_user_rate_limit_count db (sql_now w) (user_id u) < 10 \<Longrightarrow>
           get_global_rate_limit_count db (sql_now w) < 50 \<Longrightarrow>
           error_code_of ?r \<noteq> Some RATE_LIMITED_USER \<and> error_code_of ?r \<noteq> Some RATE_LIMITED_GLOBAL"
    using duplicate_check_codes [of w db "randomUUID w" "env_value (SQUARE_ACCESS_TOKEN w)"
          "env_value (SQUARE_LOCATION_ID w)" u n name email a ts]
    by (auto simp: rate_limiting_under under_limits_def saga_codes_def)
  show ?thesis
    unfolding handler_fresh [OF assms] using 1 2 3 by blast
qed

theorem rate_limits_witness:
  "authorized_caller (example_world\<lparr>date_now := 1704067260000\<rparr>) example_request example_user \<and>
   fields_valid example_request
     ''7600'' ''Jane Doe'' ''jane@example.org'' 3250 ''2024-01-01T00:00:00.000Z'' \<and>
   amount_valid 3250 \<and>
   timestamp_fresh (example_world\<lparr>date_now := 1704067260000\<rparr>) ''2024-01-01T00:00:00.000Z'' \<and>
   get_user_rate_limit_count (busy_database 10 40) 1704067260000 ''u1'' = 10 \<and>
   get_global_rate_limit_count (busy_database 10 40) 1704067260000 = 50 \<and>
   error_code_of (handler (example_world\<lparr>date_now := 1704067260000\<rparr>) (busy_database 10 40)
                    example_request) = Some RATE_LIMITED_USER \<and>
   retry_after_of (handler (example_world\<lparr>date_now := 1704067260000\<rparr>) (busy_database 10 40)
                    example_request) = Some 3600 \<and>
   status_of (handler (example_world\<lparr>date_now := 1704067260000\<rparr>) (busy_database 10 40)
                    example_request) = Some 429 \<and>
   error_code_of (handler (example_world\<lparr>date_now := 1704067260000\<rparr>) (busy_database 9 41)
                    example_request) = Some RATE_LIMITED_GLOBAL \<and>
   retry_after_of (handler (example_world\<lparr>date_now := 1704067260000\<rparr>) (busy_database 9 41)
                    example_request) = Some 300 \<and>
   error_code_of (handler (example_world\<lparr>date_now := 1704067260000\<rparr>) (busy_database 9 40)
                    example_request) \<noteq> Some RATE_LIMITED_USER \<and>
   error_code_of (handler (example_world\<lparr>date_now := 1704067260000\<rparr>) (busy_database 9 40)
                    example_request) \<noteq> Some RATE_LIMITED_GLOBAL"
proof -
  have s: "sql_now (example_world\<lparr>date_now := 1704067260000\<rparr>) = 1704067260000"
      "user_id example_user = ''u1''"
    by (simp_all add: example_world_def example_user_def)
  note r = rate_limits [OF example_authorized_request example_fields_3250 example_amount_valid
      example_fresh]
  show ?thesis
    using r [of "busy_database 10 40"] r [of "busy_database 9 41"] r [of "busy_database 9 40"]
      example_authorized_request [of 1704067260000] example_fields_3250 example_amount_valid
      example_fresh
    by (simp add: s busy_user_count busy_global_count)
qed

text \<open>
  C9. For an authorized caller and a parsed body: the first validation rule that fails
  (missing required field, order-number format, email format, amount) decides the error
  code, and whenever the handler answers with one of the four validation codes the status
  is 400, no request to the invoicing platform and no insert or update of the order ledger
  has been issued, and one audit entry has been written.
\<close>

theorem validation_failure_no_effects:
  assumes "authorized_caller w req u" and "req_json req = Some b"
  shows "(missingFields b \<noteq> [] \<longrightarrow>
            error_code_of (handler w db req) = Some VALIDATION_MISSING_FIELD) \<and>
         (\<forall>n. missingFields b = [] \<and> order_number b = Some n \<and> \<not> isValidOrderNumber n \<longrightarrow>
            error_code_of (handler w db req) = Some VALIDATION_INVALID_ORDER) \<and>
         (\<forall>n e. missingFields b = [] \<and> order_number b = Some n \<and> isValidOrderNumber n \<and>
            customer_email b = Some e \<and> \<not> isValidEmail e \<longrightarrow>
            error_code_of (handler w db req) = Some VALIDATION_INVALID_EMAIL) \<and>
         (\<forall>n e a. missingFields b = [] \<and> order_number b = Some n \<and> isValidOrderNumber n \<and>
            customer_email b = Some e \<and> isValidEmail e \<and>
            amount_cents b = Some a \<and> \<not> (a \<in> \<int> \<and> 0 < a \<and> a \<le> 5000000) \<longrightarrow>
            error_code_of (handler w db req) = Some VALIDATION_INVALID_AMOUNT) \<and>
         (error_code_of (handler w db req) \<in>
            {Some VALIDATION_MISSING_FIELD, Some VALIDATION_INVALID_ORDER,
             Some VALIDATION_INVALID_EMAIL, Some VALIDATION_INVALID_AMOUNT} \<longrightarrow>
            status_of (handler w db req) = Some 400 \<and>
            square_calls (snd (handler w db req)) = [] \<and>
            ledger_writes (snd (handler w db req)) = [] \<and>
            length (audits (snd (handler w db req))) = 1)"
proof -
  let ?cid = "randomUUID w" and ?tok = "env_value (SQUARE_ACCESS_TOKEN w)"
    and ?loc = "env_value (SQUARE_LOCATION_ID w)"
  have h: "handler w db req = validation w db ?cid ?tok ?loc u b"
    unfolding handler_authorized [OF assms(1)] using assms(2) by (simp add: parse_body_def)
  have av: "\<And>a. amount_valid a = (a \<in> \<int> \<and> 0 < a \<and> a \<le> 5000000)"
    by (simp add: amount_valid_def Number_isInteger_iff)
  have 1: "missingFields b \<noteq> [] \<longrightarrow>
            error_code_of (handler w db req) = Some VALIDATION_MISSING_FIELD"
    unfolding h by (simp add: validation_missing early_exit_facts)
  have 2: "\<forall>n. missingFields b = [] \<and> order_number b = Some n \<and> \<not> isValidOrderNumber n \<longrightarrow>
            error_code_of (handler w db req) = Some VALIDATION_INVALID_ORDER"
    unfolding h by (simp add: validation_order early_exit_facts)
  have 3: "\<forall>n e. missingFields b = [] \<and> order_number b = Some n \<and> isValidOrderNumber n \<and>
            customer_email b = Some e \<and> \<not> isValidEmail e \<longrightarrow>
            error_code_of (handler w db req) = Some VALIDATION_INVALID_EMAIL"
    unfolding h by (simp add: validation_email early_exit_facts)
  have 4: "\<forall>n e a. missingFields b = [] \<and> order_number b = Some n \<and> isValidOrderNumber n \<and>
            customer_email b = Some e \<and> isValidEmail e \<and>
            amount_cents b = Some a \<and> \<not> (a \<in> \<int> \<and> 0 < a \<and> a \<le> 5000000) \<longrightarrow>
            error_code_of (handler w db req) = Some VALIDATION_INVALID_AMOUNT"
    unfolding h av [symmetric] by (simp add: validation_amount early_exit_facts)
  have 5: "status_of (handler w db req) = Some 400 \<and>
            square_calls (snd (handler w db req)) = [] \<and>
            ledger_writes (snd (handler w db req)) = [] \<and>
            length (audits (snd (handler w db req))) = 1"
    if c: "error_code_of (handler w db req) \<in>
            {Some VALIDATION_MISSING_FIELD, Some VALIDATION_INVALID_ORDER,
             Some VALIDATION_INVALID_EMAIL, Some VALIDATION_INVALID_AMOUNT}"
  proof (cases "missingFields b = []")
    case False
    then show ?thesis unfolding h by (simp add: validation_missing early_exit_facts)
  next
    case True
    from missingFields_Nil [OF True] obtain n name e a ts where
      b: "b = \<lparr>order_number = Some n, customer_name = Some name,
         customer_email = Some e, amount_cents = Some a, request_timestamp = Some ts\<rparr>"
      and ne: "n \<noteq> []" "name \<noteq> []" "e \<noteq> []" "ts \<noteq> []"
      by blast
    have f: "order_number b = Some n" "customer_email b = Some e" "amount_cents b = Some a"
      by (simp_all add: b)
    consider "\<not> isValidOrderNumber n" | "isValidOrderNumber n" "\<not> isValidEmail e"
      | "isValidOrderNumber n" "isValidEmail e" "\<not> amount_valid a"
      | "isValidOrderNumber n" "isValidEmail e" "amount_valid a"
      by blast
    then show ?thesis
    proof cases
      case 1
      show ?thesis unfolding h validation_order [OF True f(1) 1]
        by (simp add: early_exit_facts)
    next
      case 2
      show ?thesis unfolding h validation_email [OF True f(1) 2(1) f(2) 2(2)]
        by (simp add: early_exit_facts)
    next
      case 3
      show ?thesis unfolding h validation_amount [OF True f(1) 3(1) f(2) 3(2) f(3) 3(3)]
        by (simp add: early_exit_facts)
    next
      case 4
      have fv: "fields_valid req n name e a ts"
        using assms(2) b ne 4 by (simp add: fields_valid_def)
      have "error_code_of (handler w db req) \<in>
              {Some REPLAY_REJECTED, Some RATE_LIMITED_USER, Some RATE_LIMITED_GLOBAL,
               Some DUPLICATE_ORDER} \<union> saga_codes"
        unfolding handler_amount_valid [OF assms(1) fv 4(3)]
        by (rule replay_protection_codes)
      with c show ?thesis by (auto simp: saga_codes_def)
    qed
  qed
  from 1 2 3 4 5 show ?thesis by blast
qed

theorem validation_failure_no_effects_witness:
  "authorized_caller (example_world\<lparr>date_now := 1704067260000\<rparr>)
     (example_request\<lparr>req_json := Some (example_body\<lparr>customer_email := Some ''jane@example''\<rparr>)\<rparr>)
     example_user \<and>
   req_json (example_request\<lparr>req_json := Some (example_body\<lparr>customer_email := Some ''jane@example''\<rparr>)\<rparr>)
     = Some (example_body\<lparr>customer_email := Some ''jane@example''\<rparr>) \<and>
   missingFields (example_body\<lparr>customer_email := Some ''jane@example''\<rparr>) = [] \<and>
   isValidOrderNumber ''7600'' \<and> \<not> isValidEmail ''jane@example'' \<and>
   error_code_of
     (handler (example_world\<lparr>date_now := 1704067260000\<rparr>) empty_database
        (example_request\<lparr>req_json := Some (example_body\<lparr>customer_email := Some ''jane@example''\<rparr>)\<rparr>))
     = Some VALIDATION_INVALID_EMAIL \<and>
   status_of
     (handler (example_world\<lparr>date_now := 1704067260000\<rparr>) empty_database
        (example_request\<lparr>req_json := Some (example_body\<lparr>customer_email := Some ''jane@example''\<rparr>)\<rparr>))
     = Some 400 \<and>
   square_calls (snd
     (handler (example_world\<lparr>date_now := 1704067260000\<rparr>) empty_database
        (example_request\<lparr>req_json := Some (example_body\<lparr>customer_email := Some ''jane@example''\<rparr>)\<rparr>)))
     = [] \<and>
   ledger_writes (snd
     (handler (example_world\<lparr>date_now := 1704067260000\<rparr>) empty_database
        (example_request\<lparr>req_json := Some (example_body\<lparr>customer_email := Some ''jane@example''\<rparr>)\<rparr>)))
     = []"
proof -
  let ?b = "example_body\<lparr>customer_email := Some ''jane@example''\<rparr>"
  let ?r = "example_request\<lparr>req_json := Some ?b\<rparr>"
  have j: "req_json ?r = Some ?b" by simp
  have m: "missingFields ?b = []" "order_number ?b = Some ''7600''"
      "customer_email ?b = Some ''jane@example''"
    by (simp_all add: missingFields_def example_body_def truthy_def)
  from validation_failure_no_effects [OF example_authorized [of 1704067260000 "Some ?b"] j,
      of empty_database]
    example_authorized [of 1704067260000 "Some ?b"] m example_order_number_valid
    example_email_invalid
  show ?thesis by simp
qed

text \<open>
  C1. A request whose order number has a completed ledger record never causes a request
  to the invoicing platform, whatever else the request carries; when the request reaches
  the ledger lookup the answer is HTTP 409 with code \<open>DUPLICATE_ORDER\<close>. A request
  whose fresh insert fails with the uniqueness conflict 23505 is answered with HTTP 409
  and \<open>DUPLICATE_ORDER\<close> too, again without any request to the platform.
\<close>

theorem duplicate_order_blocked:
  "(req_json req = Some b \<and> order_number b = Some n \<and>
    select_order db n = Some r \<and> po_status r = Completed \<longrightarrow>
      square_calls (snd (handler w db req)) = []) \<and>
   (reaches_ledger w db req u n name email a ts \<and>
    select_order db n = Some r \<and> po_status r = Completed \<longrightarrow>
      status_of (handler w db req) = Some 409 \<and>
      error_code_of (handler w db req) = Some DUPLICATE_ORDER \<and>
      square_calls (snd (handler w db req)) = []) \<and>
   (reaches_ledger w db req u n name email a ts \<and>
    select_order db n = None \<and> order_insert_result w = InsertError ''23505'' m \<longrightarrow>
      status_of (handler w db req) = Some 409 \<and>
      error_code_of (handler w db req) = Some DUPLICATE_ORDER \<and>
      square_calls (snd (handler w db req)) = [])"
proof -
  have 2: "status_of (handler w db req) = Some 409 \<and>
      error_code_of (handler w db req) = Some DUPLICATE_ORDER \<and>
      square_calls (snd (handler w db req)) = []"
    if "reaches_ledger w db req u n name email a ts" "select_order db n = Some r"
      "po_status r = Completed" for u n name email a ts
    unfolding handler_reaches_ledger [OF that(1)] duplicate_check_completed [OF that(2,3)]
    by (simp add: early_exit_facts)
  have 3: "status_of (handler w db req) = Some 409 \<and>
      error_code_of (handler w db req) = Some DUPLICATE_ORDER \<and>
      square_calls (snd (handler w db req)) = []"
    if "reaches_ledger w db req u n name email a ts" "select_order db n = None"
      "order_insert_result w = InsertError ''23505'' m"
    unfolding handler_reaches_ledger [OF that(1)] duplicate_check_conflict [OF that(2,3)]
    by (simp add: early_exit_facts)
  have 1: "square_calls (snd (handler w db req)) = []"
    if j: "req_json req = Some b" "order_number b = Some n"
      and s: "select_order db n = Some r" "po_status r = Completed"
  proof -
    from handler_harmless_or_reaches [of w db req] show ?thesis
    proof
      assume "harmless (handler w db req)"
      then show ?thesis by (simp add: harmless_def)
    next
      assume "\<exists>u n name email a ts. reaches_ledger w db req u n name email a ts"
      then obtain u' n' name' email' a' ts' where
        r: "reaches_ledger w db req u' n' name' email' a' ts'" by blast
      then have "n' = n" using j by (auto simp: reaches_ledger_def fields_valid_def)
      with 2 [OF r] s show ?thesis by simp
    qed
  qed
  from 1 2 3 show ?thesis by blast
qed

theorem duplicate_order_blocked_witness:
  "reaches_ledger example_world
     (example_database Completed
        [''customer_search'', ''customer_created'', ''order_created'', ''invoice_created'',
         ''invoice_published''])
     example_request example_user
     ''7600'' ''Jane Doe'' ''jane@example.org'' 3250 ''2024-01-01T00:00:00.000Z'' \<and>
   req_json example_request = Some example_body \<and> order_number example_body = Some ''7600'' \<and>
   select_order
     (example_database Completed
        [''customer_search'', ''customer_created'', ''order_created'', ''invoice_created'',
         ''invoice_published''])
     ''7600''
   = Some (example_order Completed
        [''customer_search'', ''customer_created'', ''order_created'', ''invoice_created'',
         ''invoice_published'']) \<and>
   po_status (example_order Completed
        [''customer_search'', ''customer_created'', ''order_created'', ''invoice_created'',
         ''invoice_published'']) = Completed \<and>
   status_of (handler example_world
     (example_database Completed
        [''customer_search'', ''customer_created'', ''order_created'', ''invoice_created'',
         ''invoice_published''])
     example_request) = Some 409 \<and>
   error_code_of (handler example_world
     (example_database Completed
        [''customer_search'', ''customer_created'', ''order_created'', ''invoice_created'',
         ''invoice_published''])
     example_request) = Some DUPLICATE_ORDER \<and>
   square_calls (snd (handler example_world
     (example_database Completed
        [''customer_search'', ''customer_created'', ''order_created'', ''invoice_created'',
         ''invoice_published''])
     example_request)) = [] \<and>
   reaches_ledger (example_world\<lparr>order_insert_result := InsertError ''23505'' ''duplicate key''\<rparr>)
     empty_database example_request example_user
     ''7600'' ''Jane Doe'' ''jane@example.org'' 3250 ''2024-01-01T00:00:00.000Z'' \<and>
   select_order empty_database ''7600'' = None \<and>
   status_of (handler (example_world\<lparr>order_insert_result := InsertError ''23505'' ''duplicate key''\<rparr>)
     empty_database example_request) = Some 409 \<and>
   error_code_of (handler (example_world\<lparr>order_insert_result := InsertError ''23505'' ''duplicate key''\<rparr>)
     empty_database example_request) = Some DUPLICATE_ORDER \<and>
   square_calls (snd (handler (example_world\<lparr>order_insert_result := InsertError ''23505'' ''duplicate key''\<rparr>)
     empty_database example_request)) = []"
proof -
  let ?steps = "[''customer_search'', ''customer_created'', ''order_created'', ''invoice_created'',
         ''invoice_published'']"
  let ?w = "example_world\<lparr>order_insert_result := InsertError ''23505'' ''duplicate key''\<rparr>"
  have r1: "reaches_ledger example_world (example_database Completed ?steps) example_request
      example_user ''7600'' ''Jane Doe'' ''jane@example.org'' 3250 ''2024-01-01T00:00:00.000Z''"
    by (rule example_reaches) (rule example_audit_log_empty)
  have r2: "reaches_ledger ?w empty_database example_request
      example_user ''7600'' ''Jane Doe'' ''jane@example.org'' 3250 ''2024-01-01T00:00:00.000Z''"
    unfolding reaches_ledger_saga_fields by (rule example_reaches) (rule example_audit_log_empty)
  have j: "req_json example_request = Some example_body" "order_number example_body = Some ''7600''"
    by (simp_all add: example_request_def example_body_def)
  have p: "po_status (example_order Completed ?steps) = Completed"
    by (simp add: example_order_def)
  have i: "order_insert_result ?w = InsertError ''23505'' ''duplicate key''"
    by simp
  from duplicate_order_blocked
         [of example_request example_body "''7600''" "example_database Completed ?steps"
             "example_order Completed ?steps" example_world example_user "''Jane Doe''"
             "''jane@example.org''" 3250 "''2024-01-01T00:00:00.000Z''"]
       duplicate_order_blocked
         [of example_request example_body "''7600''" empty_database
             "example_order Completed ?steps" ?w example_user "''Jane Doe''"
             "''jane@example.org''" 3250 "''2024-01-01T00:00:00.000Z''" "''duplicate key''"]
       r1 r2 j p i example_select_order
  show ?thesis by simp
qed

text \<open>
  C4. For a request that reaches the ledger lookup and finds a record in status pending,
  processing or failed: the first effect resets the record's status to processing and the
  second is the customer search, so the saga starts from the beginning; the outcome does
  not depend on the \<open>steps_completed\<close> stored in the record; every create or publish
  request carries its prefix (\<open>cust-\<close>, \<open>ord-\<close>, \<open>inv-\<close>, \<open>pub-\<close>) followed by the
  order number as idempotency key; and when the platform accepts every call, all steps
  are run in order.
\<close>

theorem retry_restarts_saga:
  assumes "reaches_ledger w db req u n name email a ts"
    and "select_order db n = Some r"
    and "po_status r = Pending \<or> po_status r = Processing \<or> po_status r = Failed"
  shows "(\<exists>rest. snd (handler w db req) =
            LedgerUpdate (po_id r)
              (no_patch\<lparr>set_status := Some Processing, set_updated_at := Some (toISOString w)\<rparr>) #
            squareRequest ''/customers/search'' ''POST'' (SearchCustomers email)
              (env_value (SQUARE_ACCESS_TOKEN w)) None # rest) \<and>
         (\<forall>db' s. select_order db' n = Some (r\<lparr>po_steps_completed := s\<rparr>) \<and>
                  invoice_audit_log db' = invoice_audit_log db \<longrightarrow>
                  handler w db' req = handler w db req) \<and>
         list_all (carries_key n) (square_calls (snd (handler w db req))) \<and>
         (\<forall>cs c oid iid num ver.
            customers_search w = Returns cs \<and> customers_create w = Returns c \<and>
            orders_create w = Returns oid \<and> invoices_create w = Returns (iid, num) \<and>
            invoices_get w = Returns ver \<and> invoices_publish w = Returns () \<longrightarrow>
            status_of (handler w db req) = Some 200 \<and>
            map sq_endpoint (square_calls (snd (handler w db req))) =
              [''/customers/search''] @ (if cs = [] then [''/customers''] else []) @
              [''/orders'', ''/invoices'', ''/invoices/'' @ iid,
               ''/invoices/'' @ iid @ ''/publish''])"
proof -
  let ?cid = "randomUUID w" and ?tok = "env_value (SQUARE_ACCESS_TOKEN w)"
    and ?loc = "env_value (SQUARE_LOCATION_ID w)"
  let ?o = "orchestration w ?cid ?tok ?loc u n name email a ts (po_id r)"
  from assms(3) have nc: "po_status r \<noteq> Completed" by auto
  have id: "record_id w db n = Some (po_id r)"
    using assms(2) nc by (simp add: record_id_def)
  have ev: "upsert_event w db u n name email a =
            LedgerUpdate (po_id r)
              (no_patch\<lparr>set_status := Some Processing, set_updated_at := Some (toISOString w)\<rparr>)"
    using assms(2) by (simp add: upsert_event_def)
  have h: "handler w db req = (fst ?o, upsert_event w db u n name email a # snd ?o)"
    by (rule handler_reaches_saga [OF assms(1) id])
  have 1: "\<exists>rest. snd (handler w db req) =
            LedgerUpdate (po_id r)
              (no_patch\<lparr>set_status := Some Processing, set_updated_at := Some (toISOString w)\<rparr>) #
            squareRequest ''/customers/search'' ''POST'' (SearchCustomers email) ?tok None # rest"
  proof -
    from orchestration_trace [of w ?cid ?tok ?loc u n name email a ts "po_id r"]
      try_block_starts_with_search [of w n name email a ?loc ?tok "po_id r"]
    obtain rest post where "snd ?o =
        (squareRequest ''/customers/search'' ''POST'' (SearchCustomers email) ?tok None # rest) @ post"
      by (metis (no_types))
    then show ?thesis unfolding h ev by simp
  qed
  have 2: "handler w db' req = handler w db req"
    if s: "select_order db' n = Some (r\<lparr>po_steps_completed := s\<rparr>)"
      and l: "invoice_audit_log db' = invoice_audit_log db" for db' s
  proof -
    have r': "reaches_ledger w db' req u n name email a ts"
      using assms(1) reaches_ledger_audit_log [OF l] by simp
    have id': "record_id w db' n = Some (po_id r)"
      using s nc by (simp add: record_id_def)
    have ev': "upsert_event w db' u n name email a = upsert_event w db u n name email a"
      using s assms(2) by (simp add: upsert_event_def)
    show ?thesis
      unfolding handler_reaches_saga [OF r' id'] h ev' ..
  qed
  have 3: "list_all (carries_key n) (square_calls (snd (handler w db req)))"
    unfolding h ev by (simp add: orchestration_keys)
  have 4: "status_of (handler w db req) = Some 200 \<and>
            map sq_endpoint (square_calls (snd (handler w db req))) =
              [''/customers/search''] @ (if cs = [] then [''/customers''] else []) @
              [''/orders'', ''/invoices'', ''/invoices/'' @ iid,
               ''/invoices/'' @ iid @ ''/publish'']"
    if "customers_search w = Returns cs" "customers_create w = Returns c"
      "orders_create w = Returns oid" "invoices_create w = Returns (iid, num)"
      "invoices_get w = Returns ver" "invoices_publish w = Returns ()"
    for cs c oid iid num ver
    using orchestration_all_accepted [OF that, of ?cid ?tok ?loc u n name email a ts "po_id r"]
    unfolding h ev by (simp add: status_of_def)
  from 1 2 3 4 show ?thesis by blast
qed

theorem retry_restarts_saga_witness:
  "reaches_ledger example_world
     (example_database Failed
        [''customer_search'', ''customer_created'', ''order_created'', ''invoice_created''])
     example_request example_user
     ''7600'' ''Jane Doe'' ''jane@example.org'' 3250 ''2024-01-01T00:00:00.000Z'' \<and>
   select_order
     (example_database Failed
        [''customer_search'', ''customer_created'', ''order_created'', ''invoice_created''])
     ''7600''
   = Some (example_order Failed
        [''customer_search'', ''customer_created'', ''order_created'', ''invoice_created'']) \<and>
   po_status (example_order Failed
        [''customer_search'', ''customer_created'', ''order_created'', ''invoice_created''])
   = Failed \<and>
   handler example_world (example_database Failed []) example_request =
   handler example_world
     (example_database Failed
        [''customer_search'', ''customer_created'', ''order_created'', ''invoice_created''])
     example_request \<and>
   status_of (handler example_world
     (example_database Failed
        [''customer_search'', ''customer_created'', ''order_created'', ''invoice_created''])
     example_request) = Some 200 \<and>
   map sq_endpoint (square_calls (snd (handler example_world
     (example_database Failed
        [''customer_search'', ''customer_created'', ''order_created'', ''invoice_created''])
     example_request))) =
   [''/customers/search'', ''/customers'', ''/orders'', ''/invoices'', ''/invoices/INV1'',
    ''/invoices/INV1/publish'']"
proof -
  let ?s = "[''customer_search'', ''customer_created'', ''order_created'', ''invoice_created'']"
  have r: "reaches_ledger example_world (example_database Failed ?s) example_request example_user
     ''7600'' ''Jane Doe'' ''jane@example.org'' 3250 ''2024-01-01T00:00:00.000Z''"
    by (rule example_reaches) (rule example_audit_log_empty)
  have s: "select_order (example_database Failed ?s) ''7600'' = Some (example_order Failed ?s)"
    by (rule example_select_order)
  have p: "po_status (example_order Failed ?s) = Pending \<or>
           po_status (example_order Failed ?s) = Processing \<or>
           po_status (example_order Failed ?s) = Failed"
    by (simp add: example_order_steps)
  have s': "select_order (example_database Failed []) ''7600'' =
            Some ((example_order Failed ?s)\<lparr>po_steps_completed := []\<rparr>)"
    by (simp add: example_order_steps example_select_order)
  have l: "invoice_audit_log (example_database Failed []) =
           invoice_audit_log (example_database Failed ?s)"
    by (simp add: example_audit_log_empty)
  note t = retry_restarts_saga [OF r s p]
  from t have "handler example_world (example_database Failed []) example_request =
        handler example_world (example_database Failed ?s) example_request"
    using s' l by blast
  moreover from t example_world_accepts
  have "status_of (handler example_world (example_database Failed ?s) example_request) = Some 200 \<and>
        map sq_endpoint (square_calls (snd (handler example_world (example_database Failed ?s)
          example_request))) =
        [''/customers/search''] @ (if ([] :: SquareCustomer list) = [] then [''/customers''] else []) @
        [''/orders'', ''/invoices'', ''/invoices/'' @ ''INV1'', ''/invoices/'' @ ''INV1'' @ ''/publish'']"
    by blast
  ultimately show ?thesis
    using r s by (simp add: example_order_steps)
qed

text \<open>
  C2, as stated, fails in its last part. The platform refuses the order with the detail
  \<open>Location not found\<close>; the handler answers 500 and sets the record to failed, but
  the \<open>error_message\<close> it stores is \<open>Order creation failed: Location not found\<close>,
  the message of the error thrown by \<open>createOrder\<close>, not the platform's detail.
\<close>

theorem error_message_is_not_the_detail:
  "orders_create order_refused =
     Errors [\<lparr>category = ''INVALID_REQUEST_ERROR'', code = ''NOT_FOUND'',
              detail = ''Location not found''\<rparr>] \<and>
   status_of (handler order_refused empty_database example_request) = Some 500 \<and>
   error_code_of (handler order_refused empty_database example_request) =
     Some SQUARE_ORDER_ERROR \<and>
   map po_status
     (processed_orders (database_after order_refused empty_database example_request)) =
     [Failed] \<and>
   map po_error_message
     (processed_orders (database_after order_refused empty_database example_request)) =
     [Some ''Order creation failed: Location not found''] \<and>
   map po_error_message
     (processed_orders (database_after order_refused empty_database example_request)) \<noteq>
     [Some ''Location not found'']"
  by code_simp

text \<open>
  C2, amended. When a step of the saga fails (the \<open>try\<close> block throws with message \<open>e\<close> and
  variables \<open>v\<close>), the handler answers HTTP 500 with the code chosen from
  \<open>steps_completed\<close>: \<open>SQUARE_CUSTOMER_ERROR\<close> if it is empty, else
  \<open>SQUARE_ORDER_ERROR\<close> if \<open>order_created\<close> is absent, else
  \<open>SQUARE_INVOICE_ERROR\<close> if \<open>invoice_created\<close> is absent, else
  \<open>SQUARE_PUBLISH_ERROR\<close> (\<open>invoice_published\<close> is always absent at a failure).
  Before the audit entry and the response, the record is updated to status failed with
  \<open>error_message = e\<close>, and \<open>e\<close> is the message of the failed platform call: its
  label followed by the platform's error detail, or the message of the rejected request.
\<close>

theorem saga_failure_classified:
  assumes "reaches_ledger w db req u n name email a ts" and "record_id w db n = Some pid"
    and "saga w n name email a pid = (Some e, v, t)"
  shows "status_of (handler w db req) = Some 500 \<and>
         error_code_of (handler w db req) =
           Some (if stepsCompleted v = [] then SQUARE_CUSTOMER_ERROR
                 else if ''order_created'' \<notin> set (stepsCompleted v) then SQUARE_ORDER_ERROR
                 else if ''invoice_created'' \<notin> set (stepsCompleted v) then SQUARE_INVOICE_ERROR
                 else SQUARE_PUBLISH_ERROR) \<and>
         ''invoice_published'' \<notin> set (stepsCompleted v) \<and>
         e \<in> set (platform_failures w) \<and>
         (\<exists>c. error_code_of (handler w db req) = Some c \<and>
              snd (handler w db req) =
                upsert_event w db u n name email a # t @
                [LedgerUpdate pid
                   (no_patch\<lparr>set_status := Some Failed,
                      set_steps_completed := Some (stepsCompleted v),
                      set_error_message := Some e,
                      set_square_customer_id := squareCustomerId v,
                      set_square_order_id := squareOrderId v,
                      set_square_invoice_id := squareInvoiceId v\<rparr>)] @
                logAudit w (randomUUID w)
                  ((audit_saga u n name email a ts v ''FAILURE'')
                     \<lparr>ae_error_code := Some c, ae_error_message := Some e\<rparr>))"
proof -
  note f = try_block_failure_saga [OF assms(3)]
  from assms(3) have o:
    "orchestration w (randomUUID w) (env_value (SQUARE_ACCESS_TOKEN w))
       (env_value (SQUARE_LOCATION_ID w)) u n name email a ts pid =
     (Inr (errorResponse (classify (stepsCompleted v))
             (''Invoice creation did not complete. Click 'Try Again' to retry safely. Error: '' @ e)
             500 (randomUUID w) None),
      t @
      [LedgerUpdate pid
         (no_patch\<lparr>set_status := Some Failed,
            set_steps_completed := Some (stepsCompleted v),
            set_error_message := Some e,
            set_square_customer_id := squareCustomerId v,
            set_square_order_id := squareOrderId v,
            set_square_invoice_id := squareInvoiceId v\<rparr>)] @
      logAudit w (randomUUID w)
        ((audit_saga u n name email a ts v ''FAILURE'')
           \<lparr>ae_error_code := Some (classify (stepsCompleted v)), ae_error_message := Some e\<rparr>))"
    by (simp add: orchestration_def saga_def Let_def)
  have c: "classify (stepsCompleted v) =
           (if stepsCompleted v = [] then SQUARE_CUSTOMER_ERROR
            else if ''order_created'' \<notin> set (stepsCompleted v) then SQUARE_ORDER_ERROR
            else if ''invoice_created'' \<notin> set (stepsCompleted v) then SQUARE_INVOICE_ERROR
            else SQUARE_PUBLISH_ERROR)"
    using f by (simp add: classify_def)
  show ?thesis
    unfolding handler_reaches_saga [OF assms(1,2)] o
    using f by (simp add: early_exit_facts c)
qed

theorem saga_failure_classified_witness:
  "reaches_ledger order_refused empty_database example_request example_user
     ''7600'' ''Jane Doe'' ''jane@example.org'' 3250 ''2024-01-01T00:00:00.000Z'' \<and>
   record_id order_refused empty_database ''7600'' = Some ''po-1'' \<and>
   fst (saga order_refused ''7600'' ''Jane Doe'' ''jane@example.org'' 3250 ''po-1'') =
     Some ''Order creation failed: Location not found'' \<and>
   status_of (handler order_refused empty_database example_request) = Some 500 \<and>
   error_code_of (handler order_refused empty_database example_request) =
     Some SQUARE_ORDER_ERROR \<and>
   ''Order creation failed: Location not found'' \<in> set (platform_failures order_refused) \<and>
   map (\<lambda>r. (po_status r, po_steps_completed r, po_error_message r))
     (processed_orders (database_after order_refused empty_database example_request)) =
   [(Failed, [''customer_search'', ''customer_found''],
     Some ''Order creation failed: Location not found'')]"
proof -
  have i: "record_id order_refused empty_database ''7600'' = Some ''po-1''"
    by (simp add: record_id_def example_select_order order_refused_def example_world_def)
  from saga_failure_classified [OF order_refused_reaches i order_refused_saga]
    order_refused_reaches i order_refused_saga order_refused_database
  show ?thesis by simp
qed

text \<open>
  C8, as stated, fails. A first request for order 7600 fails at the publish call and
  leaves four steps stored; a retry that fails at the customer search then writes the
  empty list to the same record: the stored \<open>steps_completed\<close> shrinks.
\<close>

theorem steps_completed_shrinks_on_retry:
  "map po_id (processed_orders (database_after publish_refused empty_database example_request))
     = [''po-1''] \<and>
   map po_steps_completed
     (processed_orders (database_after publish_refused empty_database example_request))
     = [[''customer_search'', ''customer_created'', ''order_created'', ''invoice_created'']] \<and>
   steps_writes
     (snd (handler search_refused
             (database_after publish_refused empty_database example_request) example_request))
     = [(''po-1'', [])] \<and>
   \<not> set [''customer_search'', ''customer_created'', ''order_created'', ''invoice_created'']
       \<subseteq> set ([] :: string list) \<and>
   map po_steps_completed
     (processed_orders
        (database_after search_refused
           (database_after publish_refused empty_database example_request) example_request))
     = [[]]"
  by code_simp

text \<open>
  C8, amended. Within one invocation of the handler the values written to
  \<open>steps_completed\<close> only grow: every write is to the same record and has each earlier
  write of that invocation as a prefix.
\<close>

theorem steps_completed_grows_within_attempt:
  "sorted_wrt extends (steps_writes (snd (handler w db req)))"
proof -
  from handler_harmless_or_reaches [of w db req] show ?thesis
  proof
    assume "harmless (handler w db req)"
    then show ?thesis by (simp add: harmless_def no_ledger_writes_no_steps)
  next
    assume "\<exists>u n name email a ts. reaches_ledger w db req u n name email a ts"
    then obtain u n name email a ts where "reaches_ledger w db req u n name email a ts"
      by blast
    then show ?thesis
      unfolding handler_reaches_ledger [OF \<open>reaches_ledger w db req u n name email a ts\<close>]
      by (simp add: duplicate_check_writes_sorted)
  qed
qed

theorem steps_completed_grows_within_attempt_witness:
  "steps_writes (snd (handler example_world empty_database example_request)) =
     [(''po-1'', [''customer_search'', ''customer_created'']),
      (''po-1'', [''customer_search'', ''customer_created'', ''order_created'']),
      (''po-1'', [''customer_search'', ''customer_created'', ''order_created'', ''invoice_created'']),
      (''po-1'', [''customer_search'', ''customer_created'', ''order_created'', ''invoice_created'',
                 ''invoice_published''])] \<and>
   sorted_wrt extends (steps_writes (snd (handler example_world empty_database example_request)))"
proof -
  have "steps_writes (snd (handler example_world empty_database example_request)) =
     [(''po-1'', [''customer_search'', ''customer_created'']),
      (''po-1'', [''customer_search'', ''customer_created'', ''order_created'']),
      (''po-1'', [''customer_search'', ''customer_created'', ''order_created'', ''invoice_created'']),
      (''po-1'', [''customer_search'', ''customer_created'', ''order_created'', ''invoice_created'',
                 ''invoice_published''])]"
    by code_simp
  with steps_completed_grows_within_attempt [of example_world empty_database example_request]
  show ?thesis by simp
qed

text \<open>
  C3, as stated, fails. A request with a method other than POST is answered with 405, and
  a request to a function whose configuration is incomplete with 500, and neither exit
  writes an audit entry.
\<close>

theorem exits_without_audit_entry:
  "status_of (handler example_world empty_database (example_request\<lparr>req_method := ''GET''\<rparr>))
     = Some 405 \<and>
   audits (snd (handler example_world empty_database (example_request\<lparr>req_method := ''GET''\<rparr>)))
     = [] \<and>
   status_of (handler (example_world\<lparr>SQUARE_LOCATION_ID := None\<rparr>) empty_database example_request)
     = Some 500 \<and>
   audits (snd (handler (example_world\<lparr>SQUARE_LOCATION_ID := None\<rparr>) empty_database
                  example_request))
     = []"
  by code_simp

text \<open>
  C3, amended. For a POST request to a configured function, every path on which the
  handler returns a response writes exactly one audit entry, as its last effect before the
  response; the exits for a method other than POST and for missing configuration write
  none. Whether the audit insert throws changes neither the response nor any other
  effect on the stores and the platform.
\<close>

theorem audit_written_once:
  "(req_method req = ''POST'' \<and> config_present w \<and> fst (handler w db req) = Inr resp \<longrightarrow>
      length (audits (snd (handler w db req))) = 1 \<and>
      (case last (effects (snd (handler w db req))) of AuditInsert e \<Rightarrow> True | _ \<Rightarrow> False)) \<and>
   (req_method req \<noteq> ''POST'' \<or> \<not> config_present w \<longrightarrow>
      audits (snd (handler w db req)) = []) \<and>
   fst (handler (w\<lparr>audit_insert_throws := x\<rparr>) db req) = fst (handler w db req) \<and>
   effects (snd (handler (w\<lparr>audit_insert_throws := x\<rparr>) db req)) =
     effects (snd (handler w db req))"
proof -
  have 1: "length (audits (snd (handler w db req))) = 1 \<and>
      (case last (effects (snd (handler w db req))) of AuditInsert e \<Rightarrow> True | _ \<Rightarrow> False)"
    if "req_method req = ''POST''" "config_present w" "fst (handler w db req) = Inr resp"
    using handler_audited [OF that(1,2), of db] that(3)
    by (simp add: audited_once_def)
  have 2: "audits (snd (handler w db req)) = []"
    if "req_method req \<noteq> ''POST'' \<or> \<not> config_present w"
    using that by (auto simp: handler_def config_present_def Let_def)
  have 3: "fst (handler (w\<lparr>audit_insert_throws := x\<rparr>) db req) = fst (handler w db req) \<and>
           effects (snd (handler (w\<lparr>audit_insert_throws := x\<rparr>) db req)) =
             effects (snd (handler w db req))"
    using handler_audit_flag [where w = w and x = x and db = db and req = req]
    by (simp add: observable_def)
  from 1 2 3 show ?thesis by blast
qed

theorem audit_written_once_witness:
  "req_method example_request = ''POST'' \<and> config_present example_world \<and>
   status_of (handler example_world empty_database example_request) = Some 200 \<and>
   length (audits (snd (handler example_world empty_database example_request))) = 1 \<and>
   fst (handler (example_world\<lparr>audit_insert_throws := True\<rparr>) empty_database example_request) =
   fst (handler example_world empty_database example_request) \<and>
   invoice_audit_log
     (database_after (example_world\<lparr>audit_insert_throws := True\<rparr>) empty_database
        example_request) = []"
proof -
  have m: "req_method example_request = ''POST''"
    by (simp add: example_request_def)
  have c: "config_present example_world"
    by (simp add: config_present_def example_world_def truthy_def)
  have s: "status_of (handler example_world empty_database example_request) = Some 200"
    by code_simp
  then obtain resp where r: "fst (handler example_world empty_database example_request) = Inr resp"
    by (auto simp: status_of_def split: sum.splits)
  have a: "invoice_audit_log
     (database_after (example_world\<lparr>audit_insert_throws := True\<rparr>) empty_database
        example_request) = []"
    by code_simp
  from audit_written_once [where req = example_request and w = example_world
      and db = empty_database and resp = resp and x = True] m c s r a
  show ?thesis by simp
qed

end
